theory Spec2Isabelle
  imports Complex_Main "HOL-Library.AList" "HOL-Library.Monad_Syntax"
begin

section \<open>Common Python values\<close>

text \<open>
  An exception object, as far as the program looks at it: \<open>type(e).__name__\<close> and
  \<open>str(e)\<close>.  Only subclasses of \<open>Exception\<close> are represented.
\<close>

datatype exn = Exn (exn_type: string) (exn_str: string)

text \<open>
  The content of a JSON file as \<open>json.load\<close> sees it: the file is absent, its text is
  not JSON (\<open>json.load\<close> raises \<open>JSONDecodeError\<close> with the given message), or it
  decodes to a value.
\<close>

datatype 'a json_file = Missing | Unparsable string | Parsed 'a

text \<open>
  Durations are Python floats.  They are carried as reals; \<open>round(duration, 2)\<close> is
  rounding to two decimals, ties to even.  No property below depends on its value.
\<close>

definition round_half_even :: "real \<Rightarrow> int" where
  "round_half_even x =
     (let f = \<lfloor>x\<rfloor>; r = x - of_int f
      in if r < 1 / 2 then f else if 1 / 2 < r then f + 1 else if even f then f else f + 1)"

definition round2 :: "real \<Rightarrow> real" where
  "round2 d = of_int (round_half_even (d * 100)) / 100"

section \<open>Source state tracker (src/state/source\_state.py)\<close>

record FetchHistoryEntry =
  h_timestamp :: string
  h_success :: bool
  h_items_fetched :: int
  h_error :: "string option"
  h_duration_seconds :: real

record SourceState =
  source_id :: string
  last_fetch_attempt :: "string option"
  last_successful_fetch :: "string option"
  last_fetch_success :: bool
  last_error :: "string option"
  last_error_type :: "string option"
  items_fetched_last_run :: int
  total_items_fetched :: int
  consecutive_failures :: int
  fetch_history :: "FetchHistoryEntry list"

text \<open>\<open>SourceState(source_id=source_id)\<close>: every other field takes its default.\<close>

definition new_SourceState :: "string \<Rightarrow> SourceState" where
  "new_SourceState sid =
     \<lparr>source_id = sid, last_fetch_attempt = None, last_successful_fetch = None,
      last_fetch_success = False, last_error = None, last_error_type = None,
      items_fetched_last_run = 0, total_items_fetched = 0, consecutive_failures = 0,
      fetch_history = []\<rparr>"

definition MAX_HISTORY_ENTRIES :: nat where
  "MAX_HISTORY_ENTRIES = 10"

text \<open>
  The manager: \<open>_states\<close> is a Python dict, kept as an association list in insertion
  order; \<open>state_file\<close> is \<open>sources.json\<close>.  A decoded state file is a list of
  entries; an entry is \<open>None\<close> when building its \<open>SourceState\<close> raises (a missing or
  unknown key).
\<close>

type_synonym states_json = "(string \<times> SourceState option) list"

record SourceStateManager =
  states :: "(string \<times> SourceState) list"
  state_file :: "states_json json_file"

text \<open>
  The loop of \<open>_load\<close>.  The whole body is inside \<open>try ... except Exception: pass\<close>:
  the first entry that raises ends the loop, and the entries before it stay.
\<close>

fun load_entries :: "states_json \<Rightarrow> (string \<times> SourceState) list \<Rightarrow> (string \<times> SourceState) list" where
  "load_entries [] acc = acc"
| "load_entries ((k, None) # es) acc = acc"
| "load_entries ((k, Some s) # es) acc = load_entries es (AList.update k s acc)"

text \<open>\<open>__init__\<close> followed by \<open>_load\<close>; the result type has an error side to say that
  it is never taken.\<close>

definition SourceStateManager_load :: "states_json json_file \<Rightarrow> exn + SourceStateManager" where
  "SourceStateManager_load f =
     (case f of
        Missing \<Rightarrow> Inr \<lparr>states = [], state_file = f\<rparr>
      | Unparsable msg \<Rightarrow> Inr \<lparr>states = [], state_file = f\<rparr>
      | Parsed es \<Rightarrow> Inr \<lparr>states = load_entries es [], state_file = f\<rparr>)"

definition save_states :: "SourceStateManager \<Rightarrow> SourceStateManager" where
  "save_states m = m\<lparr>state_file := Parsed (map (\<lambda>(k, s). (k, Some s)) (states m))\<rparr>"

definition get_state :: "SourceStateManager \<Rightarrow> string \<Rightarrow> SourceState option" where
  "get_state m sid = map_of (states m) sid"

text \<open>\<open>self._states.get(source_id) or SourceState(source_id=source_id)\<close>; a dataclass
  instance is always truthy.\<close>

definition state_or_new :: "SourceStateManager \<Rightarrow> string \<Rightarrow> SourceState" where
  "state_or_new m sid = (case get_state m sid of Some s \<Rightarrow> s | None \<Rightarrow> new_SourceState sid)"

text \<open>\<open>now\<close> is the string \<open>datetime.utcnow().isoformat() + "Z"\<close> read by the call.\<close>

definition record_success :: "SourceStateManager \<Rightarrow> string \<Rightarrow> string \<Rightarrow> int \<Rightarrow> real \<Rightarrow> SourceStateManager" where
  "record_success m now sid n duration =
     (let state = state_or_new m sid;
          entry = \<lparr>h_timestamp = now, h_success = True, h_items_fetched = n, h_error = None,
                   h_duration_seconds = round2 duration\<rparr>;
          state = state\<lparr>last_fetch_attempt := Some now,
                        last_successful_fetch := Some now,
                        last_fetch_success := True,
                        last_error := None,
                        last_error_type := None,
                        items_fetched_last_run := n,
                        total_items_fetched := total_items_fetched state + n,
                        consecutive_failures := 0,
                        fetch_history := take MAX_HISTORY_ENTRIES (entry # fetch_history state)\<rparr>
      in save_states (m\<lparr>states := AList.update sid state (states m)\<rparr>))"

definition record_failure :: "SourceStateManager \<Rightarrow> string \<Rightarrow> string \<Rightarrow> exn \<Rightarrow> real \<Rightarrow> SourceStateManager" where
  "record_failure m now sid e duration =
     (let state = state_or_new m sid;
          entry = \<lparr>h_timestamp = now, h_success = False, h_items_fetched = 0,
                   h_error = Some (exn_str e), h_duration_seconds = round2 duration\<rparr>;
          state = state\<lparr>last_fetch_attempt := Some now,
                        last_fetch_success := False,
                        last_error := Some (exn_str e),
                        last_error_type := Some (exn_type e),
                        items_fetched_last_run := 0,
                        consecutive_failures := consecutive_failures state + 1,
                        fetch_history := take MAX_HISTORY_ENTRIES (entry # fetch_history state)\<rparr>
      in save_states (m\<lparr>states := AList.update sid state (states m)\<rparr>))"

definition get_sources_needing_attention :: "SourceStateManager \<Rightarrow> SourceState list" where
  "get_sources_needing_attention m =
     filter (\<lambda>s. 0 < consecutive_failures s \<or> \<not> last_fetch_success s) (map snd (states m))"

text \<open>A recorded attempt is one call of the manager; a sequence of attempts is run in order.\<close>

datatype attempt =
    RecordSuccess string string int real
  | RecordFailure string string exn real

fun attempt_source :: "attempt \<Rightarrow> string" where
  "attempt_source (RecordSuccess now sid n d) = sid"
| "attempt_source (RecordFailure now sid e d) = sid"

fun record_attempt :: "SourceStateManager \<Rightarrow> attempt \<Rightarrow> SourceStateManager" where
  "record_attempt m (RecordSuccess now sid n d) = record_success m now sid n d"
| "record_attempt m (RecordFailure now sid e d) = record_failure m now sid e d"

definition record_attempts :: "SourceStateManager \<Rightarrow> attempt list \<Rightarrow> SourceStateManager" where
  "record_attempts m as = foldl record_attempt m as"

text \<open>The history entry an attempt inserts.\<close>

fun attempt_entry :: "attempt \<Rightarrow> FetchHistoryEntry" where
  "attempt_entry (RecordSuccess now sid n d) =
     \<lparr>h_timestamp = now, h_success = True, h_items_fetched = n, h_error = None,
      h_duration_seconds = round2 d\<rparr>"
| "attempt_entry (RecordFailure now sid e d) =
     \<lparr>h_timestamp = now, h_success = False, h_items_fetched = 0, h_error = Some (exn_str e),
      h_duration_seconds = round2 d\<rparr>"

fun attempt_items_ok :: "attempt \<Rightarrow> bool" where
  "attempt_items_ok (RecordSuccess now sid n d) = (0 \<le> n)"
| "attempt_items_ok (RecordFailure now sid e d) = True"

text \<open>What the tracker knows about a source, absent sources reading as a fresh state.\<close>

definition failures_of :: "SourceStateManager \<Rightarrow> string \<Rightarrow> int" where
  "failures_of m sid = consecutive_failures (state_or_new m sid)"

definition total_of :: "SourceStateManager \<Rightarrow> string \<Rightarrow> int" where
  "total_of m sid = total_items_fetched (state_or_new m sid)"

definition history_of :: "SourceStateManager \<Rightarrow> string \<Rightarrow> FetchHistoryEntry list" where
  "history_of m sid = fetch_history (state_or_new m sid)"

section \<open>Python string operations\<close>

text \<open>
  A Python \<open>str\<close> is a list of characters; a character is a code point below 256.
  Among these code points \<open>str.isspace\<close> (and \<open>\s\<close> of \<open>re\<close>) holds for 9 to 13,
  28 to 32, 133 (U+0085) and 160 (U+00A0).
\<close>

definition NL :: char where
  "NL = CHR 0x0A"

definition DQUOTE :: char where
  "DQUOTE = CHR 0x22"

definition SQUOTE :: char where
  "SQUOTE = CHR 0x27"

definition CR :: char where
  "CR = CHR 0x0D"

definition is_space :: "char \<Rightarrow> bool" where
  "is_space c = (of_char c \<in> {9, 10, 11, 12, 13, 28, 29, 30, 31, 32, 133, 160 :: nat})"

text \<open>
  The files are opened in text mode.  Writing leaves the text as it is (the line
  separator of the platform is \<open>\n\<close>); reading translates every \<open>\r\n\<close> and every
  other \<open>\r\<close> to \<open>\n\<close>.  \<open>read_text\<close> is what \<open>f.read()\<close> returns for a file with
  the given text.
\<close>

fun read_text :: "string \<Rightarrow> string" where
  "read_text [] = []"
| "read_text [c] = [if c = CR then NL else c]"
| "read_text (c # d # cs) =
     (if c = CR \<and> d = NL then NL # read_text cs
      else (if c = CR then NL else c) # read_text (d # cs))"

text \<open>\<open>s.startswith(p)\<close> and \<open>s.endswith(p)\<close>.\<close>

definition startswith :: "string \<Rightarrow> string \<Rightarrow> bool" where
  "startswith s p = (take (length p) s = p)"

definition endswith :: "string \<Rightarrow> string \<Rightarrow> bool" where
  "endswith s p = (length p \<le> length s \<and> drop (length s - length p) s = p)"

text \<open>
  \<open>s.find(sub, start)\<close> for \<open>start \<ge> 0\<close>: the lowest index \<open>i \<ge> start\<close> with
  \<open>s[i:i+len(sub)] == sub\<close>, or \<open>-1\<close>.  \<open>find_at sub cs i\<close> searches the rest \<open>cs\<close> of
  the string, whose head has index \<open>i\<close>.
\<close>

fun find_at :: "string \<Rightarrow> string \<Rightarrow> nat \<Rightarrow> int" where
  "find_at sub [] i = (if sub = [] then int i else - 1)"
| "find_at sub (c # cs) i =
     (if startswith (c # cs) sub then int i else find_at sub cs (Suc i))"

definition find :: "string \<Rightarrow> string \<Rightarrow> nat \<Rightarrow> int" where
  "find s sub start = (if start \<le> length s then find_at sub (drop start s) start else - 1)"

text \<open>\<open>sub in s\<close>.\<close>

definition contains :: "string \<Rightarrow> string \<Rightarrow> bool" where
  "contains s sub = (0 \<le> find s sub 0)"

text \<open>\<open>s[a:b]\<close> and \<open>s[a:]\<close> for indices that are not negative.\<close>

definition slice :: "nat \<Rightarrow> nat \<Rightarrow> string \<Rightarrow> string" where
  "slice a b s = drop a (take b s)"

text \<open>\<open>s.split("\n")\<close>: the pieces between the newlines; never the empty list.\<close>

fun split_lines :: "string \<Rightarrow> string list" where
  "split_lines [] = [[]]"
| "split_lines (c # cs) =
     (if c = NL then [] # split_lines cs
      else (case split_lines cs of [] \<Rightarrow> [[c]] | l # ls \<Rightarrow> (c # l) # ls))"

text \<open>\<open>s.strip(chars)\<close> removes the leading and the trailing characters that satisfy
  the predicate; \<open>s.strip()\<close> is the case of white space.\<close>

definition strip_where :: "(char \<Rightarrow> bool) \<Rightarrow> string \<Rightarrow> string" where
  "strip_where P s = rev (dropWhile P (rev (dropWhile P s)))"

definition strip :: "string \<Rightarrow> string" where
  "strip s = strip_where is_space s"

definition strip_char :: "char \<Rightarrow> string \<Rightarrow> string" where
  "strip_char c s = strip_where (\<lambda>x. x = c) s"

section \<open>Duplicate index (src/storage/deduplicator.py)\<close>

text \<open>
  \<open>_ids\<close> is a Python set of strings.  The index file holds the JSON object
  \<open>{"ids": [...]}\<close>, and \<open>_load\<close> turns the list into a set.  A decoded index file
  is one of: a value that is not an object (\<open>data.get\<close> raises \<open>AttributeError\<close>,
  with the given message); an object without the key \<open>"ids"\<close> (read as the empty
  list); an object whose \<open>"ids"\<close> is not iterable or has an unhashable element
  (\<open>set(...)\<close> raises \<open>TypeError\<close>, with the given message); an object whose
  \<open>"ids"\<close> is a list of strings, given as the set of the list.
\<close>

datatype index_json = NotObject string | NoIds | IdsBad string | Ids "string set"

record Deduplicator =
  ids :: "string set"
  index_file :: "index_json json_file"

text \<open>
  \<open>__init__\<close> followed by \<open>_load\<close>.  Nothing in \<open>_load\<close> is inside a \<open>try\<close>: an
  exception of \<open>json.load\<close>, \<open>data.get\<close> or \<open>set(...)\<close> leaves the constructor.
\<close>

definition Deduplicator_load :: "index_json json_file \<Rightarrow> exn + Deduplicator" where
  "Deduplicator_load f =
     (case f of
        Missing \<Rightarrow> Inr \<lparr>ids = {}, index_file = f\<rparr>
      | Unparsable msg \<Rightarrow> Inl (Exn ''JSONDecodeError'' msg)
      | Parsed (NotObject msg) \<Rightarrow> Inl (Exn ''AttributeError'' msg)
      | Parsed NoIds \<Rightarrow> Inr \<lparr>ids = {}, index_file = f\<rparr>
      | Parsed (IdsBad msg) \<Rightarrow> Inl (Exn ''TypeError'' msg)
      | Parsed (Ids S) \<Rightarrow> Inr \<lparr>ids = S, index_file = f\<rparr>)"

definition save_index :: "Deduplicator \<Rightarrow> Deduplicator" where
  "save_index d = d\<lparr>index_file := Parsed (Ids (ids d))\<rparr>"

definition exists :: "Deduplicator \<Rightarrow> string \<Rightarrow> bool" where
  "exists d content_id = (content_id \<in> ids d)"

definition add :: "Deduplicator \<Rightarrow> string \<Rightarrow> Deduplicator" where
  "add d content_id = save_index (d\<lparr>ids := insert content_id (ids d)\<rparr>)"

text \<open>
  The content directory: the entries under it by relative path (the directory of the
  source, the file name), in the order the directory scan yields them.  An entry is a
  file with its text, or a file that cannot be read as text (its bytes do not decode),
  with the exception \<open>f.read()\<close> raises on it.
  \<open>rglob("*.md")\<close> keeps the entries whose name ends in \<open>.md\<close>.
\<close>

type_synonym rel_path = "string \<times> string"

datatype file_entry = Text string | Unreadable exn

type_synonym content_dir = "(rel_path \<times> file_entry) list"

definition is_md :: "rel_path \<times> file_entry \<Rightarrow> bool" where
  "is_md f = endswith (snd (fst f)) ''.md''"

definition rglob_md :: "content_dir \<Rightarrow> content_dir" where
  "rglob_md files = filter is_md files"

text \<open>
  The body of the loop of \<open>rebuild_from_files\<close> for one file, from the text
  \<open>f.read()\<close> returned: the identifier the scan takes from the file's header, if it
  takes one.  The first line of the front matter that starts with \<open>id:\<close> decides
  (\<open>break\<close>).
\<close>

definition header_id :: "string \<Rightarrow> string option" where
  "header_id content =
     (if startswith content ''---'' then
        (let e = find content ''---'' 3 in
         if 0 < e then
           (case List.find (\<lambda>line. startswith line ''id:'') (split_lines (slice 3 (nat e) content)) of
              None \<Rightarrow> None
            | Some line \<Rightarrow> Some (strip_char SQUOTE (strip_char DQUOTE (strip (drop 3 line)))))
         else None)
      else None)"

text \<open>The loop of \<open>rebuild_from_files\<close>.  Reading is not inside a \<open>try\<close>: an entry
  that cannot be read ends the rebuild with its exception.\<close>

fun rebuild_loop :: "content_dir \<Rightarrow> string set \<times> int \<Rightarrow> exn + string set \<times> int" where
  "rebuild_loop [] acc = Inr acc"
| "rebuild_loop ((p, Unreadable ex) # fs) acc = Inl ex"
| "rebuild_loop ((p, Text content) # fs) (S, count) =
     (case header_id (read_text content) of
        None \<Rightarrow> rebuild_loop fs (S, count)
      | Some content_id \<Rightarrow> rebuild_loop fs (insert content_id S, count + 1))"

text \<open>\<open>rebuild_from_files\<close> returns the count and leaves the index rebuilt and saved;
  when the loop raises, nothing has been saved.\<close>

definition rebuild_from_files :: "Deduplicator \<Rightarrow> content_dir \<Rightarrow> exn + int \<times> Deduplicator" where
  "rebuild_from_files d files =
     (case rebuild_loop (rglob_md files) ({}, 0) of
        Inl ex \<Rightarrow> Inl ex
      | Inr (S, count) \<Rightarrow> Inr (count, save_index (d\<lparr>ids := S\<rparr>)))"

section \<open>Content store (src/storage/markdown\_store.py)\<close>

text \<open>
  A naive \<open>datetime\<close> is a point on the time line, counted in microseconds from
  0001-01-01T00:00:00; the valid ones are below \<open>datetime_end\<close> (the end of year 9999).
  \<open>timedelta(days=n)\<close> raises \<open>OverflowError\<close> beyond 999999999 days (with one
  message when \<open>n\<close> fits a C int and another when it does not), and so does a
  subtraction that leaves the valid range.  \<open>show_int\<close> is \<open>str\<close> of an integer.
\<close>

type_synonym datetime = int

text \<open>
  The program itself only makes naive datetimes (\<open>utcnow\<close>, \<open>fromtimestamp\<close>), but
  \<open>fromisoformat\<close> gives an aware one for a text with a UTC offset: then the value is
  the instant in UTC.  Comparing a naive with an aware datetime raises \<open>TypeError\<close>.
\<close>

datatype pydatetime = Naive datetime | Aware datetime

fun instant :: "pydatetime \<Rightarrow> datetime" where
  "instant (Naive t) = t"
| "instant (Aware t) = t"

fun is_aware :: "pydatetime \<Rightarrow> bool" where
  "is_aware (Naive t) = False"
| "is_aware (Aware t) = True"

definition datetime_end :: int where
  "datetime_end = 3652059 * 86400000000"

definition datetime_valid :: "datetime \<Rightarrow> bool" where
  "datetime_valid t = (0 \<le> t \<and> t < datetime_end)"

definition digit_char :: "nat \<Rightarrow> char" where
  "digit_char n = char_of (48 + n)"

function show_nat :: "nat \<Rightarrow> string" where
  "show_nat n = (if n < 10 then [digit_char n] else show_nat (n div 10) @ [digit_char (n mod 10)])"
  by pat_completeness auto
termination
  by (relation "measure (\<lambda>n. n)") auto

definition show_int :: "int \<Rightarrow> string" where
  "show_int i = (if i < 0 then CHR ''-'' # show_nat (nat (- i)) else show_nat (nat i))"

definition minus_days :: "datetime \<Rightarrow> int \<Rightarrow> exn + datetime" where
  "minus_days t n =
     (if n < - 2147483648 \<or> 2147483647 < n then
        Inl (Exn ''OverflowError'' ''Python int too large to convert to C int'')
      else if 999999999 < \<bar>n\<bar> then
        Inl (Exn ''OverflowError'' (''days='' @ show_int n @ ''; must have magnitude <= 999999999''))
      else if datetime_valid (t - n * 86400000000) then Inr (t - n * 86400000000)
      else Inl (Exn ''OverflowError'' ''date value out of range''))"

text \<open>
  A value as PyYAML dumps and loads it.  \<open>YNull\<close> is Python's \<open>None\<close>; a mapping is
  the list of its items.
\<close>

datatype yaml =
    YNull
  | YStr string
  | YInt int
  | YBool bool
  | YTime datetime
  | YSeq "yaml list"
  | YMap "(yaml \<times> yaml) list"

text \<open>
  The library functions the store calls are parameters: \<open>yaml.dump\<close> (with the
  keywords of the call), \<open>yaml.safe_load\<close>, \<open>datetime.isoformat\<close>,
  \<open>datetime.fromisoformat\<close> (\<open>None\<close> when it raises \<open>ValueError\<close>) and
  \<open>strftime("%Y-%m-%d")\<close>.
\<close>

record pylib =
  yaml_dump :: "yaml \<Rightarrow> string"
  yaml_safe_load :: "string \<Rightarrow> exn + yaml"
  isoformat :: "datetime \<Rightarrow> string"
  fromisoformat :: "string \<Rightarrow> pydatetime option"
  strftime_ymd :: "datetime \<Rightarrow> string"

text \<open>\<open>ContentFile\<close>.  The fields read from the front matter hold whatever value the
  YAML gave: the constructor does not check them.\<close>

record ContentFile =
  cf_id :: yaml
  cf_source_id :: yaml
  cf_source_name :: yaml
  cf_title :: yaml
  cf_url :: yaml
  cf_published_at :: pydatetime
  cf_fetched_at :: pydatetime
  cf_category :: yaml
  cf_author :: yaml
  cf_content :: string
  cf_file_path :: rel_path

text \<open>The arguments of one call of \<open>store_content\<close>.\<close>

record content_args =
  content_id :: string
  a_source_id :: string
  a_source_name :: string
  a_title :: string
  a_url :: string
  a_content :: string
  a_published_at :: datetime
  a_fetched_at :: datetime
  a_category :: string
  a_author :: "string option"
  a_metadata :: "(yaml \<times> yaml) list option"

text \<open>
  \<open>_slugify\<close>.  Among the code points below 256, \<open>str.lower\<close> moves 65 to 90 and
  192 to 222 (but not 215) up by 32 and leaves the rest, and \<open>\w\<close> holds for the
  digits, the letters and the underscore of ASCII, for 170, 178, 179, 181, 185, 186,
  188 to 190 and for 192 to 255 except 215 and 247.
\<close>

definition lower_char :: "char \<Rightarrow> char" where
  "lower_char c =
     (let n = (of_char c :: nat)
      in if (65 \<le> n \<and> n \<le> 90) \<or> (192 \<le> n \<and> n \<le> 222 \<and> n \<noteq> 215)
         then char_of (n + 32) else c)"

definition is_word :: "char \<Rightarrow> bool" where
  "is_word c =
     (let n = (of_char c :: nat)
      in (48 \<le> n \<and> n \<le> 57) \<or> (65 \<le> n \<and> n \<le> 90) \<or> (97 \<le> n \<and> n \<le> 122) \<or> n = 95
         \<or> n \<in> {170, 178, 179, 181, 185, 186, 188, 189, 190}
         \<or> (192 \<le> n \<and> n \<le> 255 \<and> n \<noteq> 215 \<and> n \<noteq> 247))"

text \<open>\<open>re.sub(P+, "-", s)\<close> for a class \<open>P\<close> of characters: every maximal run of
  characters of the class becomes one hyphen.\<close>

function sub_runs :: "(char \<Rightarrow> bool) \<Rightarrow> string \<Rightarrow> string" where
  "sub_runs P [] = []"
| "sub_runs P (c # cs) =
     (if P c then CHR ''-'' # sub_runs P (dropWhile P cs) else c # sub_runs P cs)"
  by pat_completeness auto
termination
  by (relation "measure (\<lambda>(P, s). length s)") (auto simp: length_dropWhile_le less_Suc_eq_le)

definition slugify :: "string \<Rightarrow> string" where
  "slugify text =
     (let slug = map lower_char text;
          slug = filter (\<lambda>c. is_word c \<or> is_space c \<or> c = CHR ''-'') slug;
          slug = sub_runs (\<lambda>c. is_space c \<or> c = CHR ''_'') slug;
          slug = sub_runs (\<lambda>c. c = CHR ''-'') slug
      in strip_char (CHR ''-'') (take 50 slug))"

text \<open>\<open>if author:\<close> and \<open>if metadata:\<close>: \<open>None\<close>, the empty string and the empty
  dict are falsy.\<close>

definition front_matter :: "pylib \<Rightarrow> content_args \<Rightarrow> (yaml \<times> yaml) list" where
  "front_matter lib a =
     [(YStr ''id'', YStr (content_id a)),
      (YStr ''source_id'', YStr (a_source_id a)),
      (YStr ''source_name'', YStr (a_source_name a)),
      (YStr ''title'', YStr (a_title a)),
      (YStr ''url'', YStr (a_url a)),
      (YStr ''published_at'', YStr (isoformat lib (a_published_at a))),
      (YStr ''fetched_at'', YStr (isoformat lib (a_fetched_at a))),
      (YStr ''category'', YStr (a_category a))]
     @ (case a_author a of
          None \<Rightarrow> []
        | Some au \<Rightarrow> if au = [] then [] else [(YStr ''author'', YStr au)])
     @ (case a_metadata a of
          None \<Rightarrow> []
        | Some md \<Rightarrow> if md = [] then [] else [(YStr ''metadata'', YMap md)])"

definition content_path :: "pylib \<Rightarrow> content_args \<Rightarrow> rel_path" where
  "content_path lib a =
     (a_source_id a, strftime_ymd lib (a_published_at a) @ ''-'' @ slugify (a_title a) @ ''.md'')"

definition md_content :: "pylib \<Rightarrow> content_args \<Rightarrow> string" where
  "md_content lib a =
     ''---'' @ [NL] @ yaml_dump lib (YMap (front_matter lib a)) @ ''---'' @ [NL, NL] @ a_content a"

text \<open>
  \<open>store_content\<close> writes the file (replacing one of the same path) and returns
  its path.  The file is under the content directory, at the path of the model, when
  the source id is the name of one directory (\<open>dir_name\<close>: not empty, not \<open>.\<close> or
  \<open>..\<close>, without \<open>/\<close> or NUL, at most 255 bytes in UTF-8); other source ids are
  outside the model.
\<close>

definition utf8_size :: "string \<Rightarrow> nat" where
  "utf8_size s = sum_list (map (\<lambda>c. if (of_char c :: nat) < 128 then 1 else 2) s)"

definition dir_name :: "string \<Rightarrow> bool" where
  "dir_name s =
     (s \<noteq> [] \<and> s \<noteq> ''.'' \<and> s \<noteq> ''..'' \<and> CHR ''/'' \<notin> set s \<and> CHR 0x00 \<notin> set s
      \<and> utf8_size s \<le> 255)"

definition store_content :: "pylib \<Rightarrow> content_dir \<Rightarrow> content_args \<Rightarrow> rel_path \<times> content_dir" where
  "store_content lib files a =
     (content_path lib a, AList.update (content_path lib a) (Text (md_content lib a)) files)"

text \<open>
  \<open>front_matter[key]\<close>: \<open>KeyError\<close> on a mapping without the key, \<open>TypeError\<close> on
  a value that is not a mapping; both end \<open>_parse_content_file\<close> in its \<open>except\<close>,
  so they read as \<open>None\<close> here and the steps of the parse are chained in the option
  monad.  \<open>front_matter.get(key)\<close> gives Python's \<open>None\<close> for
  a missing key and raises on a value without \<open>get\<close>.
\<close>

definition subscript :: "yaml \<Rightarrow> string \<Rightarrow> yaml option" where
  "subscript fm key = (case fm of YMap kvs \<Rightarrow> map_of kvs (YStr key) | _ \<Rightarrow> None)"

definition get_key :: "yaml \<Rightarrow> string \<Rightarrow> yaml option" where
  "get_key fm key =
     (case fm of
        YMap kvs \<Rightarrow> (case map_of kvs (YStr key) of None \<Rightarrow> Some YNull | Some v \<Rightarrow> Some v)
      | _ \<Rightarrow> None)"

text \<open>\<open>datetime.fromisoformat(v)\<close>: \<open>TypeError\<close> unless \<open>v\<close> is a string.\<close>

definition fromisoformat_value :: "pylib \<Rightarrow> yaml \<Rightarrow> pydatetime option" where
  "fromisoformat_value lib v = (case v of YStr s \<Rightarrow> fromisoformat lib s | _ \<Rightarrow> None)"

text \<open>\<open>_parse_content_file\<close> after \<open>text = f.read()\<close>.\<close>

definition parse_content_text :: "pylib \<Rightarrow> rel_path \<Rightarrow> string \<Rightarrow> ContentFile option" where
  "parse_content_text lib file_path text =
     (if \<not> startswith text ''---'' then None
      else
        (let e = find text ''---'' 3 in
         if e < 0 then None
         else
           (let front_matter_str = slice 3 (nat e) text;
                content = strip (drop (nat e + 3) text)
            in case yaml_safe_load lib front_matter_str of
                 Inl ex \<Rightarrow> None
               | Inr fm \<Rightarrow>
                   do {
                     v_id \<leftarrow> subscript fm ''id'';
                     v_source_id \<leftarrow> subscript fm ''source_id'';
                     v_source_name \<leftarrow> subscript fm ''source_name'';
                     v_title \<leftarrow> subscript fm ''title'';
                     v_url \<leftarrow> subscript fm ''url'';
                     v_published \<leftarrow> subscript fm ''published_at'';
                     published \<leftarrow> fromisoformat_value lib v_published;
                     v_fetched \<leftarrow> subscript fm ''fetched_at'';
                     fetched \<leftarrow> fromisoformat_value lib v_fetched;
                     v_category \<leftarrow> subscript fm ''category'';
                     v_author \<leftarrow> get_key fm ''author'';
                     Some \<lparr>cf_id = v_id, cf_source_id = v_source_id,
                           cf_source_name = v_source_name, cf_title = v_title, cf_url = v_url,
                           cf_published_at = published, cf_fetched_at = fetched,
                           cf_category = v_category, cf_author = v_author,
                           cf_content = content, cf_file_path = file_path\<rparr>
                   })))"

text \<open>\<open>_parse_content_file\<close> on an entry: the file is read in text mode, and an
  exception of \<open>open\<close> or \<open>read\<close> is caught like the others.\<close>

fun parse_content_file :: "pylib \<Rightarrow> rel_path \<Rightarrow> file_entry \<Rightarrow> ContentFile option" where
  "parse_content_file lib file_path (Text file_text) =
     parse_content_text lib file_path (read_text file_text)"
| "parse_content_file lib file_path (Unreadable ex) = None"

text \<open>
  \<open>results.sort(key=lambda x: x.published_at, reverse=True)\<close>: a stable sort, latest
  first, equal keys in the order they had.  It compares the keys, and raises
  \<open>TypeError\<close> when naive and aware ones are both among them.
\<close>

definition sort_published_desc :: "ContentFile list \<Rightarrow> ContentFile list" where
  "sort_published_desc cs = rev (sort_key (\<lambda>c. instant (cf_published_at c)) (rev cs))"

definition mixed_kinds :: "pydatetime list \<Rightarrow> bool" where
  "mixed_kinds ts = (list_ex is_aware ts \<and> list_ex (\<lambda>t. \<not> is_aware t) ts)"

definition compare_TypeError :: exn where
  "compare_TypeError = Exn ''TypeError'' ''can't compare offset-naive and offset-aware datetimes''"

text \<open>
  \<open>get_content_since\<close>.  The comparison \<open>content_file.fetched_at >= since\<close> and the
  sort are outside any \<open>try\<close>: a parsed file whose fetch time is not of the kind of
  \<open>since\<close> raises, and so does a result list with published times of both kinds.
\<close>

definition get_content_since :: "pylib \<Rightarrow> content_dir \<Rightarrow> pydatetime \<Rightarrow> exn + ContentFile list" where
  "get_content_since lib files since =
     (let parsed = List.map_filter (\<lambda>(p, e). parse_content_file lib p e) (rglob_md files) in
      if list_ex (\<lambda>c. is_aware (cf_fetched_at c) \<noteq> is_aware since) parsed then Inl compare_TypeError
      else
        (let results = filter (\<lambda>c. instant since \<le> instant (cf_fetched_at c)) parsed in
         if mixed_kinds (map cf_published_at results) then Inl compare_TypeError
         else Inr (sort_published_desc results)))"

text \<open>The content directory after a sequence of \<open>store_content\<close> calls.\<close>

definition store_all :: "pylib \<Rightarrow> content_dir \<Rightarrow> content_args list \<Rightarrow> content_dir" where
  "store_all lib files calls = foldl (\<lambda>fs a. snd (store_content lib fs a)) files calls"

text \<open>How a field of the written record reads as a YAML value.\<close>

definition opt_str :: "string option \<Rightarrow> yaml" where
  "opt_str x = (case x of None \<Rightarrow> YNull | Some s \<Rightarrow> YStr s)"

section \<open>Sources (src/curation/types.py, source\_registry.py)\<close>

datatype SourceType = RSS

fun SourceType_value :: "SourceType \<Rightarrow> string" where
  "SourceType_value RSS = ''rss''"

record Source =
  src_id :: string
  src_name :: string
  src_type :: SourceType
  src_url :: string
  src_category :: string
  src_enabled :: bool

text \<open>The registry's \<open>_sources\<close> dict, in insertion order.\<close>

type_synonym SourceRegistry = "(string \<times> Source) list"

definition get_source_by_id :: "SourceRegistry \<Rightarrow> string \<Rightarrow> Source option" where
  "get_source_by_id reg sid = map_of reg sid"

definition get_enabled_sources :: "SourceRegistry \<Rightarrow> Source list" where
  "get_enabled_sources reg = filter src_enabled (map snd reg)"

section \<open>Feed fetcher (src/collection/fetchers)\<close>

record FetchResult =
  fr_id :: string
  fr_source_id :: string
  fr_title :: string
  fr_content :: string
  fr_url :: string
  fr_published_at :: datetime
  fr_fetched_at :: datetime
  fr_author :: "string option"
  fr_metadata :: "(yaml \<times> yaml) list"

record FetchOutcome =
  success :: bool
  results :: "FetchResult list"
  error_message :: "string option"
  error_type :: "string option"

text \<open>
  A feed entry as \<open>_parse_entry\<close> reads it.  A field is \<open>None\<close> when the key is
  absent.  \<open>e_content\<close> lists, for the dicts of \<open>entry.content\<close>, their \<open>"value"\<close>
  (\<open>None\<close> for a dict without it); \<open>e_tags\<close> lists \<open>t.get("term")\<close> for the tags.
  The parsed times are \<open>struct_time\<close> values, nine integers.
\<close>

type_synonym struct_time = "int list"

record FeedEntry =
  e_id :: "string option"
  e_link :: "string option"
  e_title :: "string option"
  e_content :: "string option list option"
  e_summary :: "string option"
  e_description :: "string option"
  e_published_parsed :: "struct_time option"
  e_updated_parsed :: "struct_time option"
  e_author :: "string option"
  e_tags :: "string option list"

text \<open>The result of \<open>feedparser.parse\<close>: \<open>bozo\<close> with its \<open>bozo_exception\<close> when
  set, and the entries.\<close>

record ParsedFeed =
  bozo :: "exn option"
  entries :: "FeedEntry list"

text \<open>
  What the fetcher reaches outside the program: \<open>feedparser.parse(url)\<close>,
  \<open>trafilatura.fetch_url\<close> and \<open>trafilatura.extract\<close>, and
  \<open>datetime.fromtimestamp(mktime(t))\<close>.  Each can raise.
\<close>

record feed_env =
  feedparser_parse :: "string \<Rightarrow> exn + ParsedFeed"
  trafilatura_fetch_url :: "string \<Rightarrow> exn + string option"
  trafilatura_extract :: "string \<Rightarrow> exn + string option"
  fromtimestamp_mktime :: "struct_time \<Rightarrow> exn + datetime"

text \<open>Truthiness of an optional string: \<open>None\<close> and \<open>""\<close> are falsy.\<close>

definition truthy :: "string option \<Rightarrow> bool" where
  "truthy x = (case x of None \<Rightarrow> False | Some s \<Rightarrow> s \<noteq> [])"

text \<open>\<open>a or b\<close> on optional strings.\<close>

definition py_or :: "string option \<Rightarrow> string option \<Rightarrow> string option" where
  "py_or a b = (if truthy a then a else b)"

definition fetch_full_article :: "feed_env \<Rightarrow> string \<Rightarrow> string option" where
  "fetch_full_article env url =
     (case trafilatura_fetch_url env url of
        Inl ex \<Rightarrow> None
      | Inr downloaded \<Rightarrow>
          (if truthy downloaded then
             (case trafilatura_extract env (the downloaded) of
                Inl ex \<Rightarrow> None
              | Inr text \<Rightarrow> text)
           else None))"

text \<open>The content the feed gives for an entry.\<close>

definition feed_content :: "FeedEntry \<Rightarrow> string" where
  "feed_content entry =
     (case e_content entry of
        Some (v # vs) \<Rightarrow> (case v of None \<Rightarrow> [] | Some s \<Rightarrow> s)
      | _ \<Rightarrow>
        (case e_summary entry of
           Some s \<Rightarrow> s
         | None \<Rightarrow> (case e_description entry of Some s \<Rightarrow> s | None \<Rightarrow> [])))"

definition enriched_content :: "feed_env \<Rightarrow> string \<Rightarrow> string \<Rightarrow> string" where
  "enriched_content env url content =
     (if url \<noteq> [] \<and> (length content < 500 \<or> contains content ''<a href='') then
        (let full_article = fetch_full_article env url
         in if truthy full_article \<and> length content < length (the full_article)
            then the full_article else content)
      else content)"

definition entry_published_at :: "feed_env \<Rightarrow> FeedEntry \<Rightarrow> datetime \<Rightarrow> exn + datetime" where
  "entry_published_at env entry fetched_at =
     (case e_published_parsed entry of
        Some t \<Rightarrow> fromtimestamp_mktime env t
      | None \<Rightarrow>
        (case e_updated_parsed entry of
           Some t \<Rightarrow> fromtimestamp_mktime env t
         | None \<Rightarrow> Inr fetched_at))"

text \<open>The body of the \<open>try\<close> of \<open>_parse_entry\<close>: it raises, returns \<open>None\<close> or
  returns a result.\<close>

definition parse_entry_body :: "feed_env \<Rightarrow> FeedEntry \<Rightarrow> Source \<Rightarrow> datetime \<Rightarrow> exn + FetchResult option" where
  "parse_entry_body env entry source fetched_at =
     (let entry_id = py_or (py_or (e_id entry) (e_link entry)) (e_title entry) in
      if \<not> truthy entry_id then Inr None
      else
        (let title = (case e_title entry of None \<Rightarrow> ''Untitled'' | Some t \<Rightarrow> t);
             url = (case e_link entry of None \<Rightarrow> [] | Some l \<Rightarrow> l);
             content = enriched_content env url (feed_content entry)
         in case entry_published_at env entry fetched_at of
              Inl ex \<Rightarrow> Inl ex
            | Inr published_at \<Rightarrow>
                Inr (Some \<lparr>fr_id = the entry_id, fr_source_id = src_id source, fr_title = title,
                           fr_content = content, fr_url = url, fr_published_at = published_at,
                           fr_fetched_at = fetched_at, fr_author = e_author entry,
                           fr_metadata =
                             [(YStr ''tags'', YSeq (map (\<lambda>t. YStr (the t)) (filter truthy (e_tags entry))))]\<rparr>)))"

text \<open>\<open>_parse_entry\<close>: \<open>except Exception: return None\<close>.\<close>

definition parse_entry :: "feed_env \<Rightarrow> FeedEntry \<Rightarrow> Source \<Rightarrow> datetime \<Rightarrow> FetchResult option" where
  "parse_entry env entry source fetched_at =
     (case parse_entry_body env entry source fetched_at of Inl ex \<Rightarrow> None | Inr r \<Rightarrow> r)"

text \<open>The body of the \<open>try\<close> of \<open>fetch\<close>; \<open>fetched_at\<close> is the \<open>datetime.utcnow()\<close>
  it reads.\<close>

definition fetch_body :: "feed_env \<Rightarrow> Source \<Rightarrow> datetime \<Rightarrow> exn + FetchOutcome" where
  "fetch_body env source fetched_at =
     (case feedparser_parse env (src_url source) of
        Inl ex \<Rightarrow> Inl ex
      | Inr feed \<Rightarrow>
          (case bozo feed of
             Some bozo_exception \<Rightarrow>
               if entries feed = [] then
                 Inr \<lparr>success = False, results = [],
                      error_message = Some (exn_str bozo_exception),
                      error_type = Some (exn_type bozo_exception)\<rparr>
               else
                 Inr \<lparr>success = True,
                      results = List.map_filter (\<lambda>entry. parse_entry env entry source fetched_at) (entries feed),
                      error_message = None, error_type = None\<rparr>
           | None \<Rightarrow>
               Inr \<lparr>success = True,
                    results = List.map_filter (\<lambda>entry. parse_entry env entry source fetched_at) (entries feed),
                    error_message = None, error_type = None\<rparr>))"

text \<open>\<open>RSSFetcher.fetch\<close>: the body, and the \<open>except Exception\<close> that turns what it
  raises into an outcome.  The sum type keeps a place for an exception that would
  leave \<open>fetch\<close>.\<close>

definition fetch :: "feed_env \<Rightarrow> Source \<Rightarrow> datetime \<Rightarrow> exn + FetchOutcome" where
  "fetch env source fetched_at =
     (case fetch_body env source fetched_at of
        Inl e \<Rightarrow> Inr \<lparr>success = False, results = [], error_message = Some (exn_str e),
                      error_type = Some (exn_type e)\<rparr>
      | Inr outcome \<Rightarrow> Inr outcome)"

section \<open>Collection coordinator (src/collection/coordinator.py)\<close>

record CollectionStats =
  sources_processed :: int
  items_fetched :: int
  items_stored :: int
  items_skipped_duplicate :: int
  errors :: int

definition new_CollectionStats :: CollectionStats where
  "new_CollectionStats =
     \<lparr>sources_processed = 0, items_fetched = 0, items_stored = 0,
      items_skipped_duplicate = 0, errors = 0\<rparr>"

text \<open>The coordinator's configuration: the registry and \<open>max_age_days\<close>.  Its
  \<open>_fetchers\<close> dict is fixed by the constructor: one fetcher, under \<open>"rss"\<close>.\<close>

record Coordinator =
  registry :: SourceRegistry
  max_age_days :: int

definition fetchers :: "string \<Rightarrow> (feed_env \<Rightarrow> Source \<Rightarrow> datetime \<Rightarrow> exn + FetchOutcome) option" where
  "fetchers k = (if k = ''rss'' then Some fetch else None)"

text \<open>
  The objects the coordinator works on: the state tracker, the duplicate index and the
  store.  The coordinator only ever calls \<open>store_content\<close> on the store and ignores
  the path it returns, so the store is kept as the sequence of these calls;
  \<^const>\<open>store_all\<close> gives the content directory they leave.
\<close>

record world =
  state_manager :: SourceStateManager
  dedup :: Deduplicator
  store_calls :: "content_args list"

text \<open>
  What one \<open>collect_source\<close> call reads from outside: the network, the
  \<open>datetime.utcnow()\<close> inside \<open>fetch\<close>, the measured duration, the
  \<open>datetime.utcnow()\<close> of the cutoff (read once, after the fetch and before the first
  item), and the time stamp of the state tracker's record call.
\<close>

record call_env =
  net :: feed_env
  fetched_now :: datetime
  duration :: real
  cutoff_now :: datetime
  record_now :: string

text \<open>The variables the item loop changes.\<close>

record loop_state =
  l_stats :: CollectionStats
  l_items_stored :: int
  l_dedup :: Deduplicator
  l_store_calls :: "content_args list"

text \<open>The arguments of the \<open>store_content\<close> call for an item.\<close>

definition store_args :: "Coordinator \<Rightarrow> Source \<Rightarrow> FetchResult \<Rightarrow> content_args" where
  "store_args co source result =
     \<lparr>content_id = fr_id result,
      a_source_id = fr_source_id result,
      a_source_name =
        (case get_source_by_id (registry co) (fr_source_id result) of
           Some source_obj \<Rightarrow> src_name source_obj
         | None \<Rightarrow> fr_source_id result),
      a_title = fr_title result,
      a_url = fr_url result,
      a_content = fr_content result,
      a_published_at = fr_published_at result,
      a_fetched_at = fr_fetched_at result,
      a_category = src_category source,
      a_author = fr_author result,
      a_metadata = Some (fr_metadata result)\<rparr>"

text \<open>One iteration of \<open>for result in outcome.results\<close>.\<close>

definition process_result :: "Coordinator \<Rightarrow> Source \<Rightarrow> bool \<Rightarrow> datetime \<Rightarrow> loop_state \<Rightarrow> FetchResult \<Rightarrow> loop_state" where
  "process_result co source force cutoff l result =
     (let stats = (l_stats l)\<lparr>items_fetched := items_fetched (l_stats l) + 1\<rparr> in
      if fr_published_at result < cutoff then l\<lparr>l_stats := stats\<rparr>
      else if \<not> force \<and> exists (l_dedup l) (fr_id result) then
        l\<lparr>l_stats := stats\<lparr>items_skipped_duplicate := items_skipped_duplicate stats + 1\<rparr>\<rparr>
      else
        \<lparr>l_stats = stats\<lparr>items_stored := items_stored stats + 1\<rparr>,
         l_items_stored = l_items_stored l + 1,
         l_dedup = add (l_dedup l) (fr_id result),
         l_store_calls = l_store_calls l @ [store_args co source result]\<rparr>)"

definition process_results :: "Coordinator \<Rightarrow> Source \<Rightarrow> bool \<Rightarrow> datetime \<Rightarrow> loop_state \<Rightarrow> FetchResult list \<Rightarrow> loop_state" where
  "process_results co source force cutoff l rs = foldl (process_result co source force cutoff) l rs"

text \<open>\<open>outcome.error_message or "Unknown error"\<close>.\<close>

definition failure_message :: "FetchOutcome \<Rightarrow> string" where
  "failure_message outcome =
     (if truthy (error_message outcome) then the (error_message outcome) else ''Unknown error'')"

text \<open>
  \<open>collect_source\<close>.  An exception that leaves it (from the fetcher, or from the
  subtraction of the cutoff) is the left side of the result; both come before the first
  change of the state.
\<close>

definition collect_source :: "Coordinator \<Rightarrow> call_env \<Rightarrow> Source \<Rightarrow> bool \<Rightarrow> world \<Rightarrow> exn + (CollectionStats \<times> world)" where
  "collect_source co env source force w =
     (let stats = new_CollectionStats\<lparr>sources_processed := 1\<rparr> in
      case fetchers (SourceType_value (src_type source)) of
        None \<Rightarrow> Inr (stats\<lparr>errors := 1\<rparr>, w)
      | Some fetcher \<Rightarrow>
          (case fetcher (net env) source (fetched_now env) of
             Inl ex \<Rightarrow> Inl ex
           | Inr outcome \<Rightarrow>
               if \<not> success outcome then
                 Inr (stats\<lparr>errors := 1\<rparr>,
                      w\<lparr>state_manager :=
                          record_failure (state_manager w) (record_now env) (src_id source)
                            (Exn ''Exception'' (failure_message outcome)) (duration env)\<rparr>)
               else
                 (case minus_days (cutoff_now env) (max_age_days co) of
                    Inl ex \<Rightarrow> Inl ex
                  | Inr cutoff \<Rightarrow>
                      (let l = process_results co source force cutoff
                                 \<lparr>l_stats = stats, l_items_stored = 0, l_dedup = dedup w,
                                  l_store_calls = store_calls w\<rparr>
                                 (results outcome)
                       in Inr (l_stats l,
                               \<lparr>state_manager =
                                   record_success (state_manager w) (record_now env) (src_id source)
                                     (l_items_stored l) (duration env),
                                dedup = l_dedup l,
                                store_calls = l_store_calls l\<rparr>)))))"

text \<open>\<open>collect_all\<close>: the enabled sources in registry order; \<open>envs\<close> gives, by source
  id, what the call for that source reads from outside.\<close>

definition add_stats :: "CollectionStats \<Rightarrow> CollectionStats \<Rightarrow> CollectionStats" where
  "add_stats stats source_stats =
     \<lparr>sources_processed = sources_processed stats + 1,
      items_fetched = items_fetched stats + items_fetched source_stats,
      items_stored = items_stored stats + items_stored source_stats,
      items_skipped_duplicate = items_skipped_duplicate stats + items_skipped_duplicate source_stats,
      errors = errors stats + errors source_stats\<rparr>"

fun collect_sources :: "Coordinator \<Rightarrow> (string \<Rightarrow> call_env) \<Rightarrow> bool \<Rightarrow> Source list \<Rightarrow> CollectionStats \<times> world \<Rightarrow> exn + (CollectionStats \<times> world)" where
  "collect_sources co envs force [] acc = Inr acc"
| "collect_sources co envs force (source # sources) (stats, w) =
     (case collect_source co (envs (src_id source)) source force w of
        Inl ex \<Rightarrow> Inl ex
      | Inr (source_stats, w') \<Rightarrow>
          collect_sources co envs force sources (add_stats stats source_stats, w'))"

definition collect_all :: "Coordinator \<Rightarrow> (string \<Rightarrow> call_env) \<Rightarrow> bool \<Rightarrow> world \<Rightarrow> exn + (CollectionStats \<times> world)" where
  "collect_all co envs force w =
     collect_sources co envs force (get_enabled_sources (registry co)) (new_CollectionStats, w)"

definition collect_by_id :: "Coordinator \<Rightarrow> call_env \<Rightarrow> string \<Rightarrow> bool \<Rightarrow> world \<Rightarrow> exn + (CollectionStats option \<times> world)" where
  "collect_by_id co env sid force w =
     (case get_source_by_id (registry co) sid of
        None \<Rightarrow> Inr (None, w)
      | Some source \<Rightarrow>
          (case collect_source co env source force w of
             Inl ex \<Rightarrow> Inl ex
           | Inr (stats, w') \<Rightarrow> Inr (Some stats, w')))"

section \<open>Notions used to state the properties\<close>

text \<open>The items the loop passes to the store, from the index it starts with: the
  characterisation of the loop that the lemmas below establish.\<close>

fun stored_results :: "bool \<Rightarrow> datetime \<Rightarrow> string set \<Rightarrow> FetchResult list \<Rightarrow> FetchResult list" where
  "stored_results force cutoff S [] = []"
| "stored_results force cutoff S (r # rs) =
     (if fr_published_at r < cutoff then stored_results force cutoff S rs
      else if \<not> force \<and> fr_id r \<in> S then stored_results force cutoff S rs
      else r # stored_results force cutoff (insert (fr_id r) S) rs)"

text \<open>The state of the item loop of \<open>collect_source\<close> when it starts, and when it comes
  to the item of index \<open>i\<close>.\<close>

definition loop_start :: "world \<Rightarrow> loop_state" where
  "loop_start w =
     \<lparr>l_stats = new_CollectionStats\<lparr>sources_processed := 1\<rparr>, l_items_stored = 0,
      l_dedup = dedup w, l_store_calls = store_calls w\<rparr>"

definition loop_before :: "Coordinator \<Rightarrow> Source \<Rightarrow> bool \<Rightarrow> datetime \<Rightarrow> world \<Rightarrow> FetchResult list \<Rightarrow> nat \<Rightarrow> loop_state" where
  "loop_before co source force cutoff w rs i =
     process_results co source force cutoff (loop_start w) (take i rs)"

text \<open>The cutoff of a call: \<open>max_age_days\<close> days before the clock reading.\<close>

definition cutoff_of :: "Coordinator \<Rightarrow> call_env \<Rightarrow> datetime" where
  "cutoff_of co env = cutoff_now env - max_age_days co * 86400000000"

text \<open>The index holds an identifier if and only if \<open>store_content\<close> has been called
  with it.\<close>

definition index_matches_store :: "world \<Rightarrow> bool" where
  "index_matches_store w = (ids (dedup w) = content_id ` set (store_calls w))"

text \<open>
  The text \<open>yaml.dump\<close> gives for a front matter can be cut out again by the scan
  for the closing marker, from the text read back: it has no \<open>---\<close> in it, no
  carriage return, and, unless empty, ends with a newline (as the block style of a
  mapping does).
\<close>

definition marker_free :: "string \<Rightarrow> bool" where
  "marker_free D = (\<not> contains D ''---'' \<and> CR \<notin> set D \<and> (D = [] \<or> last D = NL))"

text \<open>The library round trips on the values of one call: the dumped front matter loads
  back as a mapping with the same items (in any order), and the two time stamps parse back.\<close>

definition lib_round_trips :: "pylib \<Rightarrow> content_args \<Rightarrow> bool" where
  "lib_round_trips lib a =
     (marker_free (yaml_dump lib (YMap (front_matter lib a)))
      \<and> (case yaml_safe_load lib (NL # yaml_dump lib (YMap (front_matter lib a))) of
            Inr (YMap kvs) \<Rightarrow> distinct (map fst kvs) \<and> set kvs = set (front_matter lib a)
          | _ \<Rightarrow> False)
      \<and> fromisoformat lib (isoformat lib (a_published_at a)) = Some (Naive (a_published_at a))
      \<and> fromisoformat lib (isoformat lib (a_fetched_at a)) = Some (Naive (a_fetched_at a)))"

text \<open>
  The file of a record is under the content directory, at the path of the model: the
  source id is the name of one directory, and the date text of \<open>strftime\<close> is made of
  digits and hyphens.
\<close>

definition date_text :: "string \<Rightarrow> bool" where
  "date_text s =
     (s \<noteq> [] \<and> length s \<le> 16
      \<and> list_all (\<lambda>c. c = CHR ''-'' \<or> (48 \<le> (of_char c :: nat) \<and> (of_char c :: nat) \<le> 57)) s)"

definition path_inside :: "pylib \<Rightarrow> content_args \<Rightarrow> bool" where
  "path_inside lib a =
     (dir_name (a_source_id a) \<and> date_text (strftime_ymd lib (a_published_at a)))"

text \<open>
  The files already in the store read back with naive time stamps, as every file the
  program wrote does, so that the comparisons of \<open>get_content_since\<close> with a naive
  bound do not raise.
\<close>

definition reads_naive :: "pylib \<Rightarrow> content_dir \<Rightarrow> bool" where
  "reads_naive lib files =
     list_all (\<lambda>c. \<not> is_aware (cf_published_at c) \<and> \<not> is_aware (cf_fetched_at c))
       (List.map_filter (\<lambda>(p, e). parse_content_file lib p e) (rglob_md files))"

text \<open>
  An identifier that \<open>strip()\<close>, \<open>strip('"')\<close> and \<open>strip("'")\<close> leave as it is: no
  white space and no quote at either end.
\<close>

definition plain_id :: "string \<Rightarrow> bool" where
  "plain_id s = (strip s = s \<and> strip_char DQUOTE s = s \<and> strip_char SQUOTE s = s)"

text \<open>
  The header \<open>yaml.dump\<close> writes for a record shows the record's identifier to the
  scan of \<open>rebuild_from_files\<close>: the text has no closing marker in it, its first line
  that starts with \<open>id:\<close> is \<open>id: \<close> followed by the identifier (a plain scalar), and
  the identifier has no white space or quote at its ends.
\<close>

definition writes_plain_id :: "pylib \<Rightarrow> content_args \<Rightarrow> bool" where
  "writes_plain_id lib a =
     (marker_free (yaml_dump lib (YMap (front_matter lib a)))
      \<and> List.find (\<lambda>line. startswith line ''id:'')
            (split_lines (NL # yaml_dump lib (YMap (front_matter lib a))))
          = Some (''id: '' @ content_id a)
      \<and> plain_id (content_id a))"


text \<open>
  What the scan of \<open>rebuild_from_files\<close> meets in a list of entries: the exception
  of the first entry that cannot be read, if there is one, and the identifier it takes
  from an entry that can.
\<close>

fun first_unreadable :: "content_dir \<Rightarrow> exn option" where
  "first_unreadable [] = None"
| "first_unreadable ((p, Unreadable ex) # fs) = Some ex"
| "first_unreadable ((p, Text content) # fs) = first_unreadable fs"

fun entry_id :: "file_entry \<Rightarrow> string option" where
  "entry_id (Text content) = header_id (read_text content)"
| "entry_id (Unreadable ex) = None"

text \<open>The index that holds the given identifiers and has been saved.\<close>

definition saved_index :: "string set \<Rightarrow> Deduplicator" where
  "saved_index S = \<lparr>ids = S, index_file = Parsed (Ids S)\<rparr>"

section \<open>A sample run\<close>

text \<open>
  Concrete data for the examples below: one enabled source \<open>tech-news\<close> with
  \<open>max_age_days = 7\<close>, read at 2024-01-20T12:00:00 (so the cutoff is
  2024-01-13T12:00:00).  The feed has four entries: one published ten days before,
  one whose identifier is in the index, one new entry published at the cutoff to the
  microsecond, and one that is both old and in the index.
\<close>

definition demo_source :: Source where
  "demo_source =
     \<lparr>src_id = ''tech-news'', src_name = ''Tech News'', src_type = RSS,
      src_url = ''http://example.com/feed'', src_category = ''tech'', src_enabled = True\<rparr>"

definition demo_coordinator :: Coordinator where
  "demo_coordinator = \<lparr>registry = [(''tech-news'', demo_source)], max_age_days = 7\<rparr>"

definition demo_entry :: "string \<Rightarrow> string \<Rightarrow> struct_time \<Rightarrow> FeedEntry" where
  "demo_entry ident title t =
     \<lparr>e_id = Some ident, e_link = Some ''http://example.com/a'', e_title = Some title,
      e_content = None, e_summary = Some ''Summary'', e_description = None,
      e_published_parsed = Some t, e_updated_parsed = None, e_author = None,
      e_tags = [Some ''news'', None]\<rparr>"

definition demo_entries :: "FeedEntry list" where
  "demo_entries =
     [demo_entry ''urn:old'' ''Old'' [2024, 1, 10, 12, 0, 0, 2, 10, 0],
      demo_entry ''urn:seen'' ''Seen'' [2024, 1, 19, 8, 0, 0, 4, 19, 0],
      demo_entry ''urn:new'' ''New'' [2024, 1, 13, 12, 0, 0, 5, 13, 0],
      demo_entry ''urn:seen-old'' ''Seen and old'' [2023, 6, 1, 0, 0, 0, 3, 152, 0]]"

definition demo_clock :: "struct_time \<Rightarrow> exn + datetime" where
  "demo_clock t =
     (if t = [2024, 1, 10, 12, 0, 0, 2, 10, 0] then Inr 63840484800000000
      else if t = [2024, 1, 19, 8, 0, 0, 4, 19, 0] then Inr 63841248000000000
      else if t = [2024, 1, 13, 12, 0, 0, 5, 13, 0] then Inr 63840744000000000
      else if t = [2023, 6, 1, 0, 0, 0, 3, 152, 0] then Inr 63821174400000000
      else Inl (Exn ''OverflowError'' ''mktime argument out of range''))"

definition demo_net :: feed_env where
  "demo_net =
     \<lparr>feedparser_parse =
        (\<lambda>url. if url = ''http://example.com/feed'' then Inr \<lparr>bozo = None, entries = demo_entries\<rparr>
               else Inr \<lparr>bozo = Some (Exn ''URLError'' ''<urlopen error unknown host>''), entries = []\<rparr>),
      trafilatura_fetch_url = (\<lambda>url. Inr None),
      trafilatura_extract = (\<lambda>downloaded. Inr None),
      fromtimestamp_mktime = demo_clock\<rparr>"

definition demo_env :: call_env where
  "demo_env =
     \<lparr>net = demo_net, fetched_now = 63841348798000000, duration = 2,
      cutoff_now = 63841348800000000, record_now = ''2024-01-20T12:00:00.000500Z''\<rparr>"

text \<open>Before the run, the store has been called for the two identifiers the index
  holds.\<close>

definition demo_result :: "string \<Rightarrow> string \<Rightarrow> datetime \<Rightarrow> FetchResult" where
  "demo_result ident title published =
     \<lparr>fr_id = ident, fr_source_id = ''tech-news'', fr_title = title, fr_content = ''Summary'',
      fr_url = ''http://example.com/a'', fr_published_at = published,
      fr_fetched_at = 63841348798000000, fr_author = None,
      fr_metadata = [(YStr ''tags'', YSeq [YStr ''news''])]\<rparr>"

definition demo_call :: "string \<Rightarrow> string \<Rightarrow> datetime \<Rightarrow> content_args" where
  "demo_call ident title published =
     store_args demo_coordinator demo_source (demo_result ident title published)"

definition demo_world :: world where
  "demo_world =
     \<lparr>state_manager = \<lparr>states = [], state_file = Missing\<rparr>,
      dedup = \<lparr>ids = {''urn:seen'', ''urn:seen-old''},
               index_file = Parsed (Ids {''urn:seen'', ''urn:seen-old''})\<rparr>,
      store_calls =
        [demo_call ''urn:seen-old'' ''Seen and old'' 63821174400000000,
         demo_call ''urn:seen'' ''Seen'' 63841248000000000]\<rparr>"

definition demo_outcome :: FetchOutcome where
  "demo_outcome =
     \<lparr>success = True,
      results =
        [demo_result ''urn:old'' ''Old'' 63840484800000000,
         demo_result ''urn:seen'' ''Seen'' 63841248000000000,
         demo_result ''urn:new'' ''New'' 63840744000000000,
         demo_result ''urn:seen-old'' ''Seen and old'' 63821174400000000],
      error_message = None, error_type = None\<rparr>"

text \<open>The run without and with \<open>force\<close>: the statistics and the objects after it.\<close>

definition demo_stats_after :: CollectionStats where
  "demo_stats_after =
     \<lparr>sources_processed = 1, items_fetched = 4, items_stored = 1,
      items_skipped_duplicate = 1, errors = 0\<rparr>"

definition demo_world_after :: world where
  "demo_world_after =
     \<lparr>state_manager =
        record_success (state_manager demo_world) ''2024-01-20T12:00:00.000500Z'' ''tech-news'' 1 2,
      dedup = add (dedup demo_world) ''urn:new'',
      store_calls = store_calls demo_world @ [demo_call ''urn:new'' ''New'' 63840744000000000]\<rparr>"

definition demo_stats_forced :: CollectionStats where
  "demo_stats_forced =
     \<lparr>sources_processed = 1, items_fetched = 4, items_stored = 2,
      items_skipped_duplicate = 0, errors = 0\<rparr>"

definition demo_world_forced :: world where
  "demo_world_forced =
     \<lparr>state_manager =
        record_success (state_manager demo_world) ''2024-01-20T12:00:00.000500Z'' ''tech-news'' 2 2,
      dedup = add (add (dedup demo_world) ''urn:seen'') ''urn:new'',
      store_calls =
        store_calls demo_world @
          [demo_call ''urn:seen'' ''Seen'' 63841248000000000,
           demo_call ''urn:new'' ''New'' 63840744000000000]\<rparr>"

text \<open>A source whose host does not answer (the feed parser reports it through \<open>bozo\<close>),
  and a network on which \<open>feedparser.parse\<close> raises an exception without a message.\<close>

definition demo_source_down :: Source where
  "demo_source_down = demo_source\<lparr>src_url := ''http://down.example.com/feed''\<rparr>"

definition demo_net_raising :: feed_env where
  "demo_net_raising = demo_net\<lparr>feedparser_parse := (\<lambda>url. Inl (Exn ''AssertionError'' []))\<rparr>"

text \<open>
  Two content files as \<open>store_content\<close> writes them, for the same item stored twice
  under different titles.
\<close>

definition demo_yaml_text :: "string \<Rightarrow> string \<Rightarrow> string" where
  "demo_yaml_text ident title =
     ''category: tech'' @ [NL] @
     ''fetched_at: '' @ [SQUOTE] @ ''2024-01-20T11:59:58'' @ [SQUOTE, NL] @
     ''id: '' @ ident @ [NL] @
     ''metadata:'' @ [NL] @
     ''  tags:'' @ [NL] @
     ''  - news'' @ [NL] @
     ''published_at: '' @ [SQUOTE] @ ''2024-01-13T12:00:00'' @ [SQUOTE, NL] @
     ''source_id: tech-news'' @ [NL] @
     ''source_name: Tech News'' @ [NL] @
     ''title: '' @ title @ [NL] @
     ''url: http://example.com/a'' @ [NL]"

definition demo_file_text :: "string \<Rightarrow> string \<Rightarrow> string" where
  "demo_file_text ident title =
     ''---'' @ [NL] @ demo_yaml_text ident title @ ''---'' @ [NL, NL] @ ''Summary''"

definition demo_files :: content_dir where
  "demo_files =
     [((''tech-news'', ''2024-01-13-new.md''), Text (demo_file_text ''urn:new'' ''New'')),
      ((''tech-news'', ''2024-01-13-new-updated.md''), Text (demo_file_text ''urn:new'' ''New (updated)''))]"

text \<open>
  The library on the values of the sample: the ISO texts of the two time stamps, and,
  for the new item and for one other item, the YAML text of the front matter (keys
  sorted, time stamps quoted, block style), which loads back as the mapping in
  document order.
\<close>

definition demo_front_matter :: "string \<Rightarrow> string \<Rightarrow> (yaml \<times> yaml) list" where
  "demo_front_matter ident title =
     [(YStr ''id'', YStr ident),
      (YStr ''source_id'', YStr ''tech-news''),
      (YStr ''source_name'', YStr ''Tech News''),
      (YStr ''title'', YStr title),
      (YStr ''url'', YStr ''http://example.com/a''),
      (YStr ''published_at'', YStr ''2024-01-13T12:00:00''),
      (YStr ''fetched_at'', YStr ''2024-01-20T11:59:58''),
      (YStr ''category'', YStr ''tech''),
      (YStr ''metadata'', YMap [(YStr ''tags'', YSeq [YStr ''news''])])]"

definition demo_loaded :: "string \<Rightarrow> string \<Rightarrow> (yaml \<times> yaml) list" where
  "demo_loaded ident title =
     [(YStr ''category'', YStr ''tech''),
      (YStr ''fetched_at'', YStr ''2024-01-20T11:59:58''),
      (YStr ''id'', YStr ident),
      (YStr ''metadata'', YMap [(YStr ''tags'', YSeq [YStr ''news''])]),
      (YStr ''published_at'', YStr ''2024-01-13T12:00:00''),
      (YStr ''source_id'', YStr ''tech-news''),
      (YStr ''source_name'', YStr ''Tech News''),
      (YStr ''title'', YStr title),
      (YStr ''url'', YStr ''http://example.com/a'')]"

definition demo_lib :: pylib where
  "demo_lib =
     \<lparr>yaml_dump =
        (\<lambda>v. if v = YMap (demo_front_matter ''urn:new'' ''New'') then demo_yaml_text ''urn:new'' ''New''
              else if v = YMap (demo_front_matter ''urn:other'' ''Other'')
              then demo_yaml_text ''urn:other'' ''Other''
              else []),
      yaml_safe_load =
        (\<lambda>s. if s = NL # demo_yaml_text ''urn:new'' ''New'' then Inr (YMap (demo_loaded ''urn:new'' ''New''))
              else if s = NL # demo_yaml_text ''urn:other'' ''Other''
              then Inr (YMap (demo_loaded ''urn:other'' ''Other''))
              else Inl (Exn ''ScannerError'' ''could not scan'')),
      isoformat =
        (\<lambda>t. if t = 63840744000000000 then ''2024-01-13T12:00:00''
              else if t = 63841348798000000 then ''2024-01-20T11:59:58''
              else ''0001-01-01T00:00:00''),
      fromisoformat =
        (\<lambda>s. if s = ''2024-01-13T12:00:00'' then Some (Naive 63840744000000000)
              else if s = ''2024-01-20T11:59:58'' then Some (Naive 63841348798000000)
              else if s = ''2024-01-20T11:59:58+00:00'' then Some (Aware 63841348798000000)
              else None),
      strftime_ymd = (\<lambda>t. if t = 63840744000000000 then ''2024-01-13'' else ''0001-01-01'')\<rparr>"

text \<open>The calls for the new item and for the other item, and the first call for a
  body that ends with a newline and an author that is the empty string.\<close>

definition demo_args :: content_args where
  "demo_args = demo_call ''urn:new'' ''New'' 63840744000000000"

definition demo_args_other :: content_args where
  "demo_args_other = demo_call ''urn:other'' ''Other'' 63840744000000000"

definition demo_args_padded :: content_args where
  "demo_args_padded = demo_args\<lparr>a_content := ''Summary'' @ [NL], a_author := Some []\<rparr>"

text \<open>
  A feed read two seconds before the cutoff clock reading, with one entry published a
  second after the instant seven days before the fetch reading: inside the window by
  the clock of the fetch, before the cutoff by the clock of the item loop.
\<close>

definition demo_net_late :: feed_env where
  "demo_net_late =
     \<lparr>feedparser_parse =
        (\<lambda>url. Inr \<lparr>bozo = None,
                       entries = [demo_entry ''urn:late'' ''Late'' [2024, 1, 13, 11, 59, 59, 5, 13, 0]]\<rparr>),
      trafilatura_fetch_url = (\<lambda>url. Inr None),
      trafilatura_extract = (\<lambda>downloaded. Inr None),
      fromtimestamp_mktime =
        (\<lambda>t. if t = [2024, 1, 13, 11, 59, 59, 5, 13, 0] then Inr 63840743999000000
              else Inl (Exn ''OverflowError'' ''mktime argument out of range''))\<rparr>"

definition demo_env_late :: call_env where
  "demo_env_late = demo_env\<lparr>net := demo_net_late\<rparr>"

definition demo_outcome_late :: FetchOutcome where
  "demo_outcome_late =
     \<lparr>success = True, results = [demo_result ''urn:late'' ''Late'' 63840743999000000],
      error_message = None, error_type = None\<rparr>"

definition demo_stats_late :: CollectionStats where
  "demo_stats_late =
     \<lparr>sources_processed = 1, items_fetched = 1, items_stored = 0,
      items_skipped_duplicate = 0, errors = 0\<rparr>"

definition demo_world_late :: world where
  "demo_world_late =
     \<lparr>state_manager =
        record_success (state_manager demo_world) ''2024-01-20T12:00:00.000500Z'' ''tech-news'' 0 2,
      dedup = dedup demo_world,
      store_calls = store_calls demo_world\<rparr>"

text \<open>A record whose body has a Windows line end inside and a no-break space at its
  end.\<close>

definition demo_args_crlf :: content_args where
  "demo_args_crlf = demo_args\<lparr>a_content := ''a'' @ [CR, NL] @ ''b'' @ [CHR 0xA0]\<rparr>"

text \<open>
  A store with a hand-made file whose front matter loads like that of the new item but
  with a fetch time that carries a UTC offset, and an entry that cannot be read.
\<close>

definition demo_lib_aware :: pylib where
  "demo_lib_aware =
     demo_lib\<lparr>yaml_safe_load :=
       (\<lambda>s. if s = NL # ''x'' @ [NL]
             then Inr (YMap (map (\<lambda>(k, v). if k = YStr ''fetched_at''
                                           then (k, YStr ''2024-01-20T11:59:58+00:00'') else (k, v))
                              (demo_loaded ''urn:new'' ''New'')))
             else yaml_safe_load demo_lib s)\<rparr>"

definition demo_files_aware :: content_dir where
  "demo_files_aware =
     [((''tech-news'', ''hand-made.md''), Text (''---'' @ [NL] @ ''x'' @ [NL] @ ''---'' @ [NL] @ ''Body''))]"

definition demo_files_unreadable :: content_dir where
  "demo_files_unreadable =
     [((''tech-news'', ''2024-01-13-new.md''), Text (demo_file_text ''urn:new'' ''New'')),
      ((''tech-news'', ''broken.md''),
       Unreadable (Exn ''UnicodeDecodeError'' ''invalid start byte''))]"

section \<open>Properties of the source state tracker\<close>

lemma get_state_save [simp]: "get_state (save_states m) sid = get_state m sid"
  by (simp add: get_state_def save_states_def)

lemma state_or_new_record_success:
  "state_or_new (record_success m now sid n d) sid' =
     (if sid' = sid
      then (state_or_new m sid)\<lparr>last_fetch_attempt := Some now,
                        last_successful_fetch := Some now,
                        last_fetch_success := True,
                        last_error := None,
                        last_error_type := None,
                        items_fetched_last_run := n,
                        total_items_fetched := total_items_fetched (state_or_new m sid) + n,
                        consecutive_failures := 0,
                        fetch_history := take MAX_HISTORY_ENTRIES
                          (attempt_entry (RecordSuccess now sid n d) # fetch_history (state_or_new m sid))\<rparr>
      else state_or_new m sid')"
  by (simp add: state_or_new_def record_success_def get_state_def save_states_def Let_def update_conv')

lemma state_or_new_record_failure:
  "state_or_new (record_failure m now sid e d) sid' =
     (if sid' = sid
      then (state_or_new m sid)\<lparr>last_fetch_attempt := Some now,
                        last_fetch_success := False,
                        last_error := Some (exn_str e),
                        last_error_type := Some (exn_type e),
                        items_fetched_last_run := 0,
                        consecutive_failures := consecutive_failures (state_or_new m sid) + 1,
                        fetch_history := take MAX_HISTORY_ENTRIES
                          (attempt_entry (RecordFailure now sid e d) # fetch_history (state_or_new m sid))\<rparr>
      else state_or_new m sid')"
  by (simp add: state_or_new_def record_failure_def get_state_def save_states_def Let_def update_conv')

lemma get_state_record_attempt_dom:
  "get_state (record_attempt m a) sid \<noteq> None \<longleftrightarrow> sid = attempt_source a \<or> get_state m sid \<noteq> None"
  by (cases a) (auto simp: record_success_def record_failure_def get_state_def save_states_def Let_def update_conv')

lemma history_of_record_attempt:
  "history_of (record_attempt m a) sid =
     (if sid = attempt_source a
      then take MAX_HISTORY_ENTRIES (attempt_entry a # history_of m sid)
      else history_of m sid)"
  by (cases a) (simp_all add: history_of_def state_or_new_record_success state_or_new_record_failure)

lemma total_of_record_attempt:
  "total_of (record_attempt m a) sid =
     (case a of RecordSuccess now s n d \<Rightarrow> if sid = s then total_of m sid + n else total_of m sid
              | RecordFailure now s e d \<Rightarrow> total_of m sid)"
  by (cases a) (simp_all add: total_of_def state_or_new_record_success state_or_new_record_failure)

lemma record_attempts_snoc: "record_attempts m (as @ [a]) = record_attempt (record_attempts m as) a"
  by (simp add: record_attempts_def)

lemma total_of_record_attempts_mono:
  "\<forall>a \<in> set as. attempt_items_ok a \<Longrightarrow> total_of m sid \<le> total_of (record_attempts m as) sid"
proof (induction as rule: rev_induct)
  case Nil
  then show ?case by (simp add: record_attempts_def)
next
  case (snoc a as)
  then have "total_of m sid \<le> total_of (record_attempts m as) sid" by simp
  moreover have "total_of (record_attempts m as) sid \<le> total_of (record_attempt (record_attempts m as) a) sid"
    using snoc.prems by (cases a) (simp_all add: total_of_record_attempt del: record_attempt.simps)
  ultimately show ?case by (simp add: record_attempts_snoc)
qed

lemma take_take_cons: "take n (x # take n xs) = take n (x # xs)"
  by (cases n) simp_all

lemma history_of_record_attempts:
  "history_of (record_attempts m as) sid =
     (let es = rev (map attempt_entry (filter (\<lambda>a. attempt_source a = sid) as))
      in if es = [] then history_of m sid else take MAX_HISTORY_ENTRIES (es @ history_of m sid))"
proof (induction as rule: rev_induct)
  case Nil
  then show ?case by (simp add: record_attempts_def)
next
  case (snoc a as)
  show ?case
  proof (cases "attempt_source a = sid")
    case True
    then show ?thesis
      using snoc by (simp add: record_attempts_snoc history_of_record_attempt Let_def take_take_cons
          del: take_append)
  next
    case False
    then show ?thesis
      using snoc by (auto simp: record_attempts_snoc history_of_record_attempt Let_def)
  qed
qed

lemma get_state_record_success_defined: "get_state (record_success m now sid n d) sid \<noteq> None"
  by (simp add: record_success_def get_state_def save_states_def Let_def update_conv')

lemma get_state_record_failure_defined: "get_state (record_failure m now sid e d) sid \<noteq> None"
  by (simp add: record_failure_def get_state_def save_states_def Let_def update_conv')

lemma length_take_cap: "length (take MAX_HISTORY_ENTRIES xs) \<le> 10"
  by (simp add: MAX_HISTORY_ENTRIES_def)

text \<open>
  C5 (as amended).  After \<open>record_success\<close> the source's \<open>consecutive_failures\<close> is 0;
  after \<open>record_failure\<close> it is the value before the call plus one (a source never
  seen before counts as 0, the default of a fresh \<open>SourceState\<close>).  A success adds its
  item count to \<open>total_items_fetched\<close> and a failure leaves it alone; so the total of
  every source never decreases over a sequence of recorded attempts whose item counts
  are not negative.
\<close>

theorem C5_consecutive_failures_and_total:
  "get_state (record_success m now sid n d) sid \<noteq> None
   \<and> failures_of (record_success m now sid n d) sid = 0
   \<and> get_state (record_failure m now sid e d) sid \<noteq> None
   \<and> failures_of (record_failure m now sid e d) sid = failures_of m sid + 1
   \<and> total_of (record_success m now sid n d) sid = total_of m sid + n
   \<and> total_of (record_failure m now sid e d) sid = total_of m sid
   \<and> ((\<forall>a \<in> set as. attempt_items_ok a) \<longrightarrow>
          total_of m sid' \<le> total_of (record_attempts m as) sid')"
proof -
  have "failures_of (record_success m now sid n d) sid = 0"
    by (simp add: failures_of_def state_or_new_record_success)
  moreover have "failures_of (record_failure m now sid e d) sid = failures_of m sid + 1"
    by (simp add: failures_of_def state_or_new_record_failure)
  moreover have "total_of (record_success m now sid n d) sid = total_of m sid + n"
    by (simp add: total_of_def state_or_new_record_success)
  moreover have "total_of (record_failure m now sid e d) sid = total_of m sid"
    by (simp add: total_of_def state_or_new_record_failure)
  ultimately show ?thesis
    using get_state_record_success_defined get_state_record_failure_defined
      total_of_record_attempts_mono by blast
qed

theorem C5_witness:
  "attempt_items_ok (RecordSuccess ''t1'' ''feed'' 3 1)
   \<and> attempt_items_ok (RecordFailure ''t2'' ''feed'' (Exn ''URLError'' ''down'') 2)
   \<and> failures_of (record_success \<lparr>states = [], state_file = Missing\<rparr> ''t0'' ''feed'' 3 1) ''feed'' = 0
   \<and> failures_of (record_failure \<lparr>states = [], state_file = Missing\<rparr> ''t0'' ''feed''
          (Exn ''URLError'' ''down'') 1) ''feed''
       = failures_of \<lparr>states = [], state_file = Missing\<rparr> ''feed'' + 1
   \<and> total_of \<lparr>states = [], state_file = Missing\<rparr> ''feed''
       \<le> total_of (record_attempts \<lparr>states = [], state_file = Missing\<rparr>
            [RecordSuccess ''t1'' ''feed'' 3 1, RecordFailure ''t2'' ''feed'' (Exn ''URLError'' ''down'') 2])
            ''feed''"
  using C5_consecutive_failures_and_total
    [of "\<lparr>states = [], state_file = Missing\<rparr>" "''t0''" "''feed''" 3 1
        "Exn ''URLError'' ''down''"
        "[RecordSuccess ''t1'' ''feed'' 3 1, RecordFailure ''t2'' ''feed'' (Exn ''URLError'' ''down'') 2]"
        "''feed''"]
  by simp

text \<open>
  The claim C5 as stated lets the attempts be any calls.  \<open>record_success\<close> takes any
  integer as the item count: after a success with 5 items and one with -7 the total
  has gone from 5 down to -2.
\<close>

theorem C5_counterexample:
  "total_of (record_attempts \<lparr>states = [], state_file = Missing\<rparr>
      [RecordSuccess ''t1'' ''feed'' 5 1]) ''feed'' = 5
   \<and> total_of (record_attempts \<lparr>states = [], state_file = Missing\<rparr>
      [RecordSuccess ''t1'' ''feed'' 5 1, RecordSuccess ''t2'' ''feed'' (- 7) 1]) ''feed'' = - 2"
  by (simp add: record_attempts_def total_of_def state_or_new_record_success)
     (simp add: state_or_new_def get_state_def new_SourceState_def)

text \<open>
  C6.  Every recorded attempt puts its entry at the front of the source's
  \<open>fetch_history\<close> and cuts the list to its first \<open>MAX_HISTORY_ENTRIES = 10\<close>
  elements.  So after the attempts \<open>as\<close> the history of a source is the entries of its
  own attempts, the latest first, followed by what was there before, cut to 10: the
  entries that fall off are the oldest.  The length is at most 10 after one attempt,
  whatever the state before, and stays at most 10 over any number of attempts from a
  state where it was.
\<close>

theorem C6_history_capped_most_recent_first:
  "MAX_HISTORY_ENTRIES = 10
   \<and> history_of (record_attempt m a) (attempt_source a)
       = take 10 (attempt_entry a # history_of m (attempt_source a))
   \<and> length (history_of (record_attempt m a) (attempt_source a)) \<le> 10
   \<and> (filter (\<lambda>a. attempt_source a = sid) as \<noteq> [] \<longrightarrow>
        history_of (record_attempts m as) sid
          = take 10 (rev (map attempt_entry (filter (\<lambda>a. attempt_source a = sid) as)) @ history_of m sid)
        \<and> length (history_of (record_attempts m as) sid) \<le> 10)
   \<and> (length (history_of m sid) \<le> 10 \<longrightarrow> length (history_of (record_attempts m as) sid) \<le> 10)"
proof -
  have one: "history_of (record_attempt m a) (attempt_source a)
       = take 10 (attempt_entry a # history_of m (attempt_source a))"
    by (simp add: history_of_record_attempt MAX_HISTORY_ENTRIES_def)
  have many: "history_of (record_attempts m as) sid
          = take 10 (rev (map attempt_entry (filter (\<lambda>a. attempt_source a = sid) as)) @ history_of m sid)"
    if "filter (\<lambda>a. attempt_source a = sid) as \<noteq> []"
    using that by (simp add: history_of_record_attempts Let_def MAX_HISTORY_ENTRIES_def del: take_append)
  have keep: "length (history_of (record_attempts m as) sid) \<le> 10"
    if "length (history_of m sid) \<le> 10"
  proof (cases "filter (\<lambda>a. attempt_source a = sid) as = []")
    case True
    then show ?thesis using that by (simp add: history_of_record_attempts)
  next
    case False
    then show ?thesis by (simp add: many del: take_append)
  qed
  show ?thesis
    using one many keep by (simp add: MAX_HISTORY_ENTRIES_def del: take_append)
qed

theorem C6_witness:
  "filter (\<lambda>a. attempt_source a = ''feed'')
      [RecordSuccess ''t1'' ''feed'' 3 1, RecordFailure ''t2'' ''feed'' (Exn ''URLError'' ''down'') 2] \<noteq> []
   \<and> length (history_of \<lparr>states = [], state_file = Missing\<rparr> ''feed'') \<le> 10
   \<and> history_of (record_attempts \<lparr>states = [], state_file = Missing\<rparr>
        [RecordSuccess ''t1'' ''feed'' 3 1, RecordFailure ''t2'' ''feed'' (Exn ''URLError'' ''down'') 2]) ''feed''
       = take 10 (rev (map attempt_entry (filter (\<lambda>a. attempt_source a = ''feed'')
           [RecordSuccess ''t1'' ''feed'' 3 1, RecordFailure ''t2'' ''feed'' (Exn ''URLError'' ''down'') 2])) @
           history_of \<lparr>states = [], state_file = Missing\<rparr> ''feed'')
   \<and> length (history_of (record_attempts \<lparr>states = [], state_file = Missing\<rparr>
        [RecordSuccess ''t1'' ''feed'' 3 1, RecordFailure ''t2'' ''feed'' (Exn ''URLError'' ''down'') 2]) ''feed'') \<le> 10"
proof -
  have h1: "filter (\<lambda>a. attempt_source a = ''feed'')
      [RecordSuccess ''t1'' ''feed'' 3 1, RecordFailure ''t2'' ''feed'' (Exn ''URLError'' ''down'') 2] \<noteq> []"
    by simp
  have h2: "length (history_of \<lparr>states = [], state_file = Missing\<rparr> ''feed'') \<le> 10"
    by (simp add: history_of_def state_or_new_def get_state_def new_SourceState_def)
  show ?thesis
    using h1 h2 C6_history_capped_most_recent_first
      [of "\<lparr>states = [], state_file = Missing\<rparr>" "RecordSuccess ''t1'' ''feed'' 3 1" "''feed''"
          "[RecordSuccess ''t1'' ''feed'' 3 1, RecordFailure ''t2'' ''feed'' (Exn ''URLError'' ''down'') 2]"]
    by blast
qed
section \<open>Properties of the coordinator\<close>

lemma process_results_Nil [simp]: "process_results co source force cutoff l [] = l"
  by (simp add: process_results_def)

lemma process_results_Cons [simp]:
  "process_results co source force cutoff l (r # rs) =
     process_results co source force cutoff (process_result co source force cutoff l r) rs"
  by (simp add: process_results_def)

lemma process_results_snoc:
  "process_results co source force cutoff l (rs @ [r]) =
     process_result co source force cutoff (process_results co source force cutoff l rs) r"
  by (simp add: process_results_def)

lemma ids_add [simp]: "ids (add d x) = insert x (ids d)"
  by (simp add: add_def save_index_def)

lemma exists_iff [simp]: "exists d x \<longleftrightarrow> x \<in> ids d"
  by (simp add: exists_def)

lemma content_id_store_args [simp]: "content_id (store_args co source r) = fr_id r"
  by (simp add: store_args_def)

lemma a_published_at_store_args [simp]: "a_published_at (store_args co source r) = fr_published_at r"
  by (simp add: store_args_def)

text \<open>The three branches of an iteration of the item loop.\<close>

lemma step_aged:
  "fr_published_at r < cutoff \<Longrightarrow>
   process_result co source force cutoff l r =
     l\<lparr>l_stats := (l_stats l)\<lparr>items_fetched := items_fetched (l_stats l) + 1\<rparr>\<rparr>"
  by (simp add: process_result_def Let_def)

lemma step_duplicate:
  "\<not> fr_published_at r < cutoff \<Longrightarrow> \<not> force \<Longrightarrow> fr_id r \<in> ids (l_dedup l) \<Longrightarrow>
   process_result co source force cutoff l r =
     l\<lparr>l_stats := (l_stats l)\<lparr>items_fetched := items_fetched (l_stats l) + 1,
                              items_skipped_duplicate := items_skipped_duplicate (l_stats l) + 1\<rparr>\<rparr>"
  by (simp add: process_result_def Let_def)

lemma step_store:
  "\<not> fr_published_at r < cutoff \<Longrightarrow> force \<or> fr_id r \<notin> ids (l_dedup l) \<Longrightarrow>
   process_result co source force cutoff l r =
     \<lparr>l_stats = (l_stats l)\<lparr>items_fetched := items_fetched (l_stats l) + 1,
                            items_stored := items_stored (l_stats l) + 1\<rparr>,
      l_items_stored = l_items_stored l + 1,
      l_dedup = add (l_dedup l) (fr_id r),
      l_store_calls = l_store_calls l @ [store_args co source r]\<rparr>"
  by (auto simp add: process_result_def Let_def)

lemma loop_store_calls:
  "l_store_calls (process_results co source force cutoff l rs) =
     l_store_calls l @ map (store_args co source) (stored_results force cutoff (ids (l_dedup l)) rs)"
proof (induction rs arbitrary: l)
  case Nil
  then show ?case by simp
next
  case (Cons r rs)
  show ?case
  proof (cases "fr_published_at r < cutoff")
    case True
    then show ?thesis using Cons[of "process_result co source force cutoff l r"]
      by (simp add: step_aged)
  next
    case notold: False
    show ?thesis
    proof (cases "\<not> force \<and> fr_id r \<in> ids (l_dedup l)")
      case True
      then show ?thesis using notold Cons[of "process_result co source force cutoff l r"]
        by (simp add: step_duplicate)
    next
      case False
      then have "force \<or> fr_id r \<notin> ids (l_dedup l)" by blast
      then show ?thesis using notold False Cons[of "process_result co source force cutoff l r"]
        by (auto simp add: step_store)
    qed
  qed
qed

lemma loop_ids:
  "ids (l_dedup (process_results co source force cutoff l rs)) =
     ids (l_dedup l) \<union> fr_id ` set (stored_results force cutoff (ids (l_dedup l)) rs)"
proof (induction rs arbitrary: l)
  case Nil
  then show ?case by simp
next
  case (Cons r rs)
  show ?case
  proof (cases "fr_published_at r < cutoff")
    case True
    then show ?thesis using Cons[of "process_result co source force cutoff l r"]
      by (simp add: step_aged)
  next
    case notold: False
    show ?thesis
    proof (cases "\<not> force \<and> fr_id r \<in> ids (l_dedup l)")
      case True
      then show ?thesis using notold Cons[of "process_result co source force cutoff l r"]
        by (simp add: step_duplicate)
    next
      case False
      then have "force \<or> fr_id r \<notin> ids (l_dedup l)" by blast
      then show ?thesis using notold False Cons[of "process_result co source force cutoff l r"]
        by (auto simp add: step_store)
    qed
  qed
qed

lemma loop_counters:
  "items_fetched (l_stats (process_results co source force cutoff l rs)) = items_fetched (l_stats l) + int (length rs)
   \<and> items_stored (l_stats (process_results co source force cutoff l rs))
       = items_stored (l_stats l) + int (length (stored_results force cutoff (ids (l_dedup l)) rs))
   \<and> l_items_stored (process_results co source force cutoff l rs)
       = l_items_stored l + int (length (stored_results force cutoff (ids (l_dedup l)) rs))
   \<and> items_skipped_duplicate (l_stats (process_results co source force cutoff l rs))
       = items_skipped_duplicate (l_stats l)
         + int (length (filter (\<lambda>r. \<not> fr_published_at r < cutoff) rs))
         - int (length (stored_results force cutoff (ids (l_dedup l)) rs))
   \<and> sources_processed (l_stats (process_results co source force cutoff l rs)) = sources_processed (l_stats l)
   \<and> errors (l_stats (process_results co source force cutoff l rs)) = errors (l_stats l)"
proof (induction rs arbitrary: l)
  case Nil
  then show ?case by simp
next
  case (Cons r rs)
  show ?case
  proof (cases "fr_published_at r < cutoff")
    case True
    then show ?thesis using Cons[of "process_result co source force cutoff l r"]
      by (simp add: step_aged)
  next
    case notold: False
    show ?thesis
    proof (cases "\<not> force \<and> fr_id r \<in> ids (l_dedup l)")
      case True
      then show ?thesis using notold Cons[of "process_result co source force cutoff l r"]
        by (simp add: step_duplicate)
    next
      case False
      then have "force \<or> fr_id r \<notin> ids (l_dedup l)" by blast
      then show ?thesis using notold False Cons[of "process_result co source force cutoff l r"]
        by (auto simp add: step_store)
    qed
  qed
qed

lemma stored_results_not_aged: "r \<in> set (stored_results force cutoff S rs) \<Longrightarrow> \<not> fr_published_at r < cutoff \<and> r \<in> set rs"
  by (induction rs arbitrary: S) (auto split: if_splits)

lemma stored_results_force: "stored_results True cutoff S rs = filter (\<lambda>r. \<not> fr_published_at r < cutoff) rs"
  by (induction rs arbitrary: S) auto

lemma stored_results_fresh: "r \<in> set (stored_results False cutoff S rs) \<Longrightarrow> fr_id r \<notin> S"
  by (induction rs arbitrary: S) (auto split: if_splits)

lemma stored_results_distinct: "distinct (map fr_id (stored_results False cutoff S rs))"
  by (induction rs arbitrary: S) (auto dest: stored_results_fresh)

lemma stored_results_cover:
  "r \<in> set rs \<Longrightarrow> \<not> fr_published_at r < cutoff \<Longrightarrow>
   fr_id r \<in> S \<union> fr_id ` set (stored_results force cutoff S rs)"
proof (induction rs arbitrary: S)
  case Nil
  then show ?case by simp
next
  case (Cons a rs)
  show ?case
  proof (cases "r = a")
    case True
    then show ?thesis using Cons.prems by auto
  next
    case False
    then have "r \<in> set rs" using Cons.prems by simp
    then have "fr_id r \<in> S' \<union> fr_id ` set (stored_results force cutoff S' rs)" for S'
      using Cons.IH Cons.prems(2) by blast
    from this[of S] this[of "insert (fr_id a) S"] show ?thesis by auto
  qed
qed

lemma fetchers_source: "fetchers (SourceType_value t) = Some fetch"
  by (cases t) (simp add: fetchers_def)

lemma minus_days_Inr: "minus_days t n = Inr c \<Longrightarrow> c = t - n * 86400000000"
  by (auto simp: minus_days_def split: if_splits)

lemma fetch_returns: "\<exists>outcome. fetch env source t = Inr outcome"
  by (cases "fetch_body env source t") (simp_all add: fetch_def)

lemma collect_source_success:
  assumes run: "collect_source co env source force w = Inr (stats, w')"
    and fetched: "fetch (net env) source (fetched_now env) = Inr outcome"
    and ok: "success outcome"
  shows "stats = l_stats (loop_before co source force (cutoff_of co env) w (results outcome) (length (results outcome)))
         \<and> w' = \<lparr>state_manager =
                     record_success (state_manager w) (record_now env) (src_id source)
                       (l_items_stored (loop_before co source force (cutoff_of co env) w (results outcome)
                          (length (results outcome))))
                       (duration env),
                   dedup = l_dedup (loop_before co source force (cutoff_of co env) w (results outcome)
                          (length (results outcome))),
                   store_calls = l_store_calls (loop_before co source force (cutoff_of co env) w (results outcome)
                          (length (results outcome)))\<rparr>"
proof (cases "minus_days (cutoff_now env) (max_age_days co)")
  case (Inl ex)
  then show ?thesis
    using run fetched ok by (simp add: collect_source_def fetchers_source Let_def)
next
  case (Inr cutoff)
  then have "cutoff = cutoff_of co env"
    unfolding cutoff_of_def by (rule minus_days_Inr)
  then show ?thesis
    using run fetched ok Inr
    by (auto simp add: collect_source_def fetchers_source Let_def loop_before_def loop_start_def)
qed

lemma collect_source_failure:
  assumes run: "collect_source co env source force w = Inr (stats, w')"
    and fetched: "fetch (net env) source (fetched_now env) = Inr outcome"
    and ok: "\<not> success outcome"
  shows "dedup w' = dedup w \<and> store_calls w' = store_calls w"
  using run fetched ok by (auto simp add: collect_source_def fetchers_source Let_def)

lemma collect_source_returns:
  assumes "\<bar>max_age_days co\<bar> \<le> 999999999" and "datetime_valid (cutoff_of co env)"
  shows "\<exists>stats w'. collect_source co env source force w = Inr (stats, w')"
proof -
  obtain outcome where "fetch (net env) source (fetched_now env) = Inr outcome"
    using fetch_returns by blast
  moreover have "minus_days (cutoff_now env) (max_age_days co) = Inr (cutoff_of co env)"
    using assms by (auto simp add: minus_days_def cutoff_of_def)
  ultimately show ?thesis
    by (simp add: collect_source_def fetchers_source Let_def)
qed

lemma loop_before_all:
  "l_store_calls (loop_before co source force cutoff w rs (length rs)) =
     store_calls w @ map (store_args co source) (stored_results force cutoff (ids (dedup w)) rs)
   \<and> ids (l_dedup (loop_before co source force cutoff w rs (length rs))) =
     ids (dedup w) \<union> fr_id ` set (stored_results force cutoff (ids (dedup w)) rs)
   \<and> items_fetched (l_stats (loop_before co source force cutoff w rs (length rs))) = int (length rs)
   \<and> items_stored (l_stats (loop_before co source force cutoff w rs (length rs))) =
       int (length (stored_results force cutoff (ids (dedup w)) rs))
   \<and> l_items_stored (loop_before co source force cutoff w rs (length rs)) =
       int (length (stored_results force cutoff (ids (dedup w)) rs))
   \<and> items_skipped_duplicate (l_stats (loop_before co source force cutoff w rs (length rs))) =
       int (length (filter (\<lambda>r. \<not> fr_published_at r < cutoff) rs))
       - int (length (stored_results force cutoff (ids (dedup w)) rs))"
  by (simp add: loop_before_def loop_store_calls loop_ids loop_counters loop_start_def new_CollectionStats_def)

lemma loop_before_Suc:
  "i < length rs \<Longrightarrow>
   loop_before co source force cutoff w rs (Suc i) =
     process_result co source force cutoff (loop_before co source force cutoff w rs i) (rs ! i)"
  by (simp add: loop_before_def take_Suc_conv_app_nth process_results_snoc)

lemma collect_source_world:
  assumes run: "collect_source co env source force w = Inr (stats, w')"
  shows "\<exists>new. store_calls w' = store_calls w @ map (store_args co source) new
           \<and> ids (dedup w') = ids (dedup w) \<union> fr_id ` set new"
proof -
  obtain outcome where fetched: "fetch (net env) source (fetched_now env) = Inr outcome"
    using fetch_returns by blast
  show ?thesis
  proof (cases "success outcome")
    case True
    from collect_source_success[OF run fetched True] show ?thesis
      using loop_before_all[of co source force "cutoff_of co env" w "results outcome"]
      by (intro exI[of _ "stored_results force (cutoff_of co env) (ids (dedup w)) (results outcome)"]) simp
  next
    case False
    from collect_source_failure[OF run fetched False] show ?thesis
      by (intro exI[of _ "[]"]) simp
  qed
qed

lemma collect_source_index_matches:
  assumes "index_matches_store w" and "collect_source co env source force w = Inr (stats, w')"
  shows "index_matches_store w'"
proof -
  from collect_source_world[OF assms(2)] obtain new where
    "store_calls w' = store_calls w @ map (store_args co source) new"
    "ids (dedup w') = ids (dedup w) \<union> fr_id ` set new" by blast
  then show ?thesis using assms(1)
    by (simp add: index_matches_store_def image_Un image_image)
qed

lemma collect_sources_index_matches:
  "index_matches_store w \<Longrightarrow> collect_sources co envs force srcs (stats, w) = Inr (stats', w') \<Longrightarrow>
   index_matches_store w'"
proof (induction srcs arbitrary: stats w)
  case Nil
  then show ?case by simp
next
  case (Cons s srcs)
  show ?case
  proof (cases "collect_source co (envs (src_id s)) s force w")
    case (Inl ex)
    then show ?thesis using Cons.prems by simp
  next
    case (Inr p)
    obtain st1 w1 where p: "p = (st1, w1)" by (cases p)
    have "index_matches_store w1"
      using collect_source_index_matches[OF Cons.prems(1)] Inr p by blast
    then show ?thesis using Cons.IH[of w1 "add_stats stats st1"] Cons.prems(2) Inr p by simp
  qed
qed

lemma demo_fetch: "fetch (net demo_env) demo_source (fetched_now demo_env) = Inr demo_outcome"
  by (simp add: fetch_def fetch_body_def demo_env_def demo_net_def demo_source_def demo_entries_def demo_entry_def
      parse_entry_def parse_entry_body_def List.map_filter_def py_or_def truthy_def
      enriched_content_def feed_content_def fetch_full_article_def entry_published_at_def
      demo_clock_def demo_outcome_def demo_result_def Let_def)

lemma demo_cutoff: "minus_days (cutoff_now demo_env) (max_age_days demo_coordinator) = Inr 63840744000000000"
  by (simp add: minus_days_def demo_env_def demo_coordinator_def datetime_valid_def datetime_end_def)

lemma demo_run:
  "collect_source demo_coordinator demo_env demo_source False demo_world =
     Inr (demo_stats_after, demo_world_after)"
  using demo_fetch demo_cutoff
  apply (simp add: collect_source_def fetchers_source Let_def)
  apply (simp add: demo_outcome_def process_results_def process_result_def demo_result_def
      demo_world_def new_CollectionStats_def exists_def Let_def demo_source_def demo_env_def
      demo_stats_after_def demo_world_after_def demo_call_def)
  done

lemma demo_run_forced:
  "collect_source demo_coordinator demo_env demo_source True demo_world =
     Inr (demo_stats_forced, demo_world_forced)"
  using demo_fetch demo_cutoff
  apply (simp add: collect_source_def fetchers_source Let_def)
  apply (simp add: demo_outcome_def process_results_def process_result_def demo_result_def
      demo_world_def new_CollectionStats_def exists_def Let_def demo_source_def demo_env_def
      demo_stats_forced_def demo_world_forced_def demo_call_def)
  done

lemma demo_success: "success demo_outcome"
  by (simp add: demo_outcome_def)

lemma demo_cutoff_of: "cutoff_of demo_coordinator demo_env = 63840744000000000"
  by (simp add: cutoff_of_def demo_coordinator_def demo_env_def)

lemma demo_invariant: "index_matches_store demo_world"
  by (auto simp add: index_matches_store_def demo_world_def demo_call_def demo_result_def)

lemma add_idempotent: "add (add d x) x = add d x"
  by (simp add: add_def save_index_def)

lemma add_present: "x \<in> ids d \<Longrightarrow> ids (add d x) = ids d"
  by (auto simp add: add_def save_index_def)

text \<open>
  C9.  A run of \<open>collect_source\<close> with \<open>force = True\<close> whose fetch succeeds passes to
  \<open>store_content\<close> exactly the fetched items that are not older than the cutoff, in
  feed order, whether or not their identifiers are in the duplicate index; each is
  counted in \<open>items_stored\<close> and \<open>items_skipped_duplicate\<close> stays 0.
\<close>

theorem C9_force_stores_known_items:
  assumes run: "collect_source co env source True w = Inr (stats, w')"
    and fetched: "fetch (net env) source (fetched_now env) = Inr outcome"
    and ok: "success outcome"
  shows "store_calls w' = store_calls w @
           map (store_args co source)
             (filter (\<lambda>r. \<not> fr_published_at r < cutoff_of co env) (results outcome))
         \<and> items_stored stats =
             int (length (filter (\<lambda>r. \<not> fr_published_at r < cutoff_of co env) (results outcome)))
         \<and> items_skipped_duplicate stats = 0"
  using collect_source_success[OF run fetched ok]
    loop_before_all[of co source True "cutoff_of co env" w "results outcome"]
  by (simp add: stored_results_force)

theorem C9_witness:
  "collect_source demo_coordinator demo_env demo_source True demo_world =
     Inr (demo_stats_forced, demo_world_forced)
   \<and> fetch (net demo_env) demo_source (fetched_now demo_env) = Inr demo_outcome
   \<and> success demo_outcome
   \<and> ''urn:seen'' \<in> ids (dedup demo_world)
   \<and> store_calls demo_world_forced = store_calls demo_world @
          map (store_args demo_coordinator demo_source)
            (filter (\<lambda>r. \<not> fr_published_at r < cutoff_of demo_coordinator demo_env) (results demo_outcome))
   \<and> items_stored demo_stats_forced =
        int (length (filter (\<lambda>r. \<not> fr_published_at r < cutoff_of demo_coordinator demo_env)
                                  (results demo_outcome)))
   \<and> items_skipped_duplicate demo_stats_forced = 0
   \<and> map content_id (store_calls demo_world_forced) =
        [''urn:seen-old'', ''urn:seen'', ''urn:seen'', ''urn:new'']"
proof -
  have seen: "''urn:seen'' \<in> ids (dedup demo_world)" by (simp add: demo_world_def)
  have calls: "map content_id (store_calls demo_world_forced) =
        [''urn:seen-old'', ''urn:seen'', ''urn:seen'', ''urn:new'']"
    by (simp add: demo_world_forced_def demo_world_def demo_call_def demo_result_def)
  from C9_force_stores_known_items[OF demo_run_forced demo_fetch demo_success]
  show ?thesis using demo_run_forced demo_fetch demo_success seen calls by blast
qed

text \<open>
  C4 (as amended).  In a run of \<open>collect_source\<close> whose fetch succeeds, the cutoff is
  one value for all items of the call: \<open>max_age_days\<close> days before the clock reading
  the call takes for it, which is a reading of its own, taken after the fetch has
  returned and before the first item is looked at.  No item published strictly before
  the cutoff is passed to \<open>store_content\<close>.  The comparison is strict: an item
  published exactly at the cutoff passes the age filter, so with \<open>force\<close> it is
  stored, and without \<open>force\<close> its identifier is stored unless the index already had
  it.
\<close>

theorem C4_age_filter:
  assumes run: "collect_source co env source force w = Inr (stats, w')"
    and fetched: "fetch (net env) source (fetched_now env) = Inr outcome"
    and ok: "success outcome"
  shows "cutoff_of co env = cutoff_now env - max_age_days co * 86400000000
         \<and> (\<exists>new. store_calls w' = store_calls w @ map (store_args co source) new
               \<and> (\<forall>r \<in> set (results outcome). fr_published_at r < cutoff_of co env \<longrightarrow> r \<notin> set new)
               \<and> (\<forall>r \<in> set (results outcome).
                     fr_published_at r = cutoff_of co env \<and> (force \<or> fr_id r \<notin> ids (dedup w))
                       \<longrightarrow> fr_id r \<in> fr_id ` set new)
               \<and> (force \<longrightarrow> new = filter (\<lambda>r. cutoff_of co env \<le> fr_published_at r) (results outcome)))"
proof -
  let ?cutoff = "cutoff_of co env"
  let ?new = "stored_results force ?cutoff (ids (dedup w)) (results outcome)"
  have calls: "store_calls w' = store_calls w @ map (store_args co source) ?new"
    using collect_source_success[OF run fetched ok]
      loop_before_all[of co source force ?cutoff w "results outcome"] by simp
  have old: "\<forall>r \<in> set (results outcome). fr_published_at r < ?cutoff \<longrightarrow> r \<notin> set ?new"
    using stored_results_not_aged by blast
  have edge: "\<forall>r \<in> set (results outcome).
                 fr_published_at r = ?cutoff \<and> (force \<or> fr_id r \<notin> ids (dedup w)) \<longrightarrow> fr_id r \<in> fr_id ` set ?new"
  proof (intro ballI impI)
    fix r assume r: "r \<in> set (results outcome)"
      and h: "fr_published_at r = ?cutoff \<and> (force \<or> fr_id r \<notin> ids (dedup w))"
    then have na: "\<not> fr_published_at r < ?cutoff" by simp
    show "fr_id r \<in> fr_id ` set ?new"
    proof (cases force)
      case True
      then show ?thesis using r na by (simp add: stored_results_force)
    next
      case False
      then show ?thesis using stored_results_cover[OF r na, of "ids (dedup w)" force] h by blast
    qed
  qed
  have forced: "force \<longrightarrow> ?new = filter (\<lambda>r. ?cutoff \<le> fr_published_at r) (results outcome)"
    by (simp add: stored_results_force not_less)
  have "\<exists>new. store_calls w' = store_calls w @ map (store_args co source) new
               \<and> (\<forall>r \<in> set (results outcome). fr_published_at r < cutoff_of co env \<longrightarrow> r \<notin> set new)
               \<and> (\<forall>r \<in> set (results outcome).
                     fr_published_at r = cutoff_of co env \<and> (force \<or> fr_id r \<notin> ids (dedup w))
                       \<longrightarrow> fr_id r \<in> fr_id ` set new)
               \<and> (force \<longrightarrow> new = filter (\<lambda>r. cutoff_of co env \<le> fr_published_at r) (results outcome))"
    using calls old edge forced by blast
  then show ?thesis by (simp add: cutoff_of_def)
qed

theorem C4_witness:
  "collect_source demo_coordinator demo_env demo_source False demo_world =
     Inr (demo_stats_after, demo_world_after)
   \<and> fetch (net demo_env) demo_source (fetched_now demo_env) = Inr demo_outcome
   \<and> success demo_outcome
   \<and> cutoff_of demo_coordinator demo_env = 63840744000000000
   \<and> map fr_published_at (results demo_outcome) =
       [63840484800000000, 63841248000000000, 63840744000000000, 63821174400000000]
   \<and> map a_published_at (store_calls demo_world_after) =
       map a_published_at (store_calls demo_world) @ [63840744000000000]
   \<and> (\<exists>new. store_calls demo_world_after =
               store_calls demo_world @ map (store_args demo_coordinator demo_source) new
          \<and> (\<forall>r \<in> set (results demo_outcome).
                fr_published_at r < cutoff_of demo_coordinator demo_env \<longrightarrow> r \<notin> set new)
          \<and> (\<forall>r \<in> set (results demo_outcome).
                fr_published_at r = cutoff_of demo_coordinator demo_env
                \<and> (False \<or> fr_id r \<notin> ids (dedup demo_world)) \<longrightarrow> fr_id r \<in> fr_id ` set new)
          \<and> (False \<longrightarrow> new = filter (\<lambda>r. cutoff_of demo_coordinator demo_env \<le> fr_published_at r)
                                 (results demo_outcome)))"
proof -
  have pubs: "map fr_published_at (results demo_outcome) =
       [63840484800000000, 63841248000000000, 63840744000000000, 63821174400000000]"
    by (simp add: demo_outcome_def demo_result_def)
  have stored: "map a_published_at (store_calls demo_world_after) =
       map a_published_at (store_calls demo_world) @ [63840744000000000]"
    by (simp add: demo_world_after_def demo_call_def demo_result_def)
  from C4_age_filter[OF demo_run demo_fetch demo_success]
  show ?thesis using demo_run demo_fetch demo_success demo_cutoff_of pubs stored by blast
qed

lemma step_known_item:
  assumes "fr_id r \<in> ids (l_dedup l)"
  shows "l_store_calls (process_result co source False cutoff l r) = l_store_calls l
         \<and> l_dedup (process_result co source False cutoff l r) = l_dedup l
         \<and> l_items_stored (process_result co source False cutoff l r) = l_items_stored l
         \<and> items_stored (l_stats (process_result co source False cutoff l r)) = items_stored (l_stats l)
         \<and> items_skipped_duplicate (l_stats (process_result co source False cutoff l r)) =
             items_skipped_duplicate (l_stats l) + (if fr_published_at r < cutoff then 0 else 1)"
  using assms by (simp add: process_result_def Let_def)

lemma demo_fetch_late:
  "fetch (net demo_env_late) demo_source (fetched_now demo_env_late) = Inr demo_outcome_late"
  by (simp add: fetch_def fetch_body_def demo_env_late_def demo_env_def demo_net_late_def demo_source_def
      demo_entry_def parse_entry_def parse_entry_body_def py_or_def truthy_def
      enriched_content_def feed_content_def fetch_full_article_def entry_published_at_def
      demo_outcome_late_def demo_result_def Let_def)

lemma demo_cutoff_late:
  "minus_days (cutoff_now demo_env_late) (max_age_days demo_coordinator) = Inr 63840744000000000"
  by (simp add: minus_days_def demo_env_late_def demo_env_def demo_coordinator_def datetime_valid_def
      datetime_end_def)

lemma demo_run_late:
  "collect_source demo_coordinator demo_env_late demo_source True demo_world =
     Inr (demo_stats_late, demo_world_late)"
  using demo_fetch_late demo_cutoff_late
  apply (simp add: collect_source_def fetchers_source Let_def)
  apply (simp add: demo_outcome_late_def process_results_def process_result_def demo_result_def
      demo_world_def new_CollectionStats_def Let_def demo_source_def demo_env_late_def demo_env_def
      demo_stats_late_def demo_world_late_def)
  done

text \<open>
  The claim C4 as stated has the cutoff computed against the time at run start.  On a
  run whose fetch reads the clock at 11:59:58 and whose cutoff reading is 12:00:00, an
  item published seven days before 11:59:59 is inside the window by the first reading
  and is dropped, with \<open>force\<close> set, by the cutoff taken from the second.
\<close>

theorem C4_counterexample:
  "fetch (net demo_env_late) demo_source (fetched_now demo_env_late) = Inr demo_outcome_late
   \<and> results demo_outcome_late = [demo_result ''urn:late'' ''Late'' 63840743999000000]
   \<and> fetched_now demo_env_late < cutoff_now demo_env_late
   \<and> fetched_now demo_env_late - max_age_days demo_coordinator * 86400000000
        < fr_published_at (demo_result ''urn:late'' ''Late'' 63840743999000000)
   \<and> fr_published_at (demo_result ''urn:late'' ''Late'' 63840743999000000)
        < cutoff_now demo_env_late - max_age_days demo_coordinator * 86400000000
   \<and> collect_source demo_coordinator demo_env_late demo_source True demo_world =
        Inr (demo_stats_late, demo_world_late)
   \<and> items_stored demo_stats_late = 0
   \<and> store_calls demo_world_late = store_calls demo_world"
  using demo_fetch_late demo_run_late
  by (simp add: demo_outcome_late_def demo_env_late_def demo_env_def demo_coordinator_def
      demo_result_def demo_stats_late_def demo_world_late_def)

text \<open>
  C2 (as amended).  In a run of \<open>collect_source\<close> with \<open>force = False\<close> whose fetch
  succeeds, an item whose identifier is in the duplicate index when the loop comes to
  it is not passed to \<open>store_content\<close> and leaves the index (and its file) as it is;
  \<open>items_skipped_duplicate\<close> grows by one for it if it passes the age filter, and not
  at all if it is older than the cutoff (the age filter comes first).  Over the run:
  nothing is stored under an identifier the index had, the index gains exactly the
  identifiers of the stored items, and the skipped count is the number of items that
  pass the age filter less the number stored.
\<close>

theorem C2_known_items_skipped:
  assumes run: "collect_source co env source False w = Inr (stats, w')"
    and fetched: "fetch (net env) source (fetched_now env) = Inr outcome"
    and ok: "success outcome"
  shows "(\<exists>new. store_calls w' = store_calls w @ map (store_args co source) new
            \<and> (\<forall>r \<in> set new. fr_id r \<notin> ids (dedup w))
            \<and> ids (dedup w') = ids (dedup w) \<union> fr_id ` set new
            \<and> items_stored stats = int (length new)
            \<and> items_skipped_duplicate stats =
                int (length (filter (\<lambda>r. \<not> fr_published_at r < cutoff_of co env) (results outcome)))
                - int (length new))
         \<and> stats = l_stats (loop_before co source False (cutoff_of co env) w (results outcome)
                      (length (results outcome)))
         \<and> dedup w' = l_dedup (loop_before co source False (cutoff_of co env) w (results outcome)
                      (length (results outcome)))
         \<and> store_calls w' = l_store_calls (loop_before co source False (cutoff_of co env) w (results outcome)
                      (length (results outcome)))
         \<and> (\<forall>i < length (results outcome).
               fr_id (results outcome ! i)
                 \<in> ids (l_dedup (loop_before co source False (cutoff_of co env) w (results outcome) i)) \<longrightarrow>
               l_store_calls (loop_before co source False (cutoff_of co env) w (results outcome) (Suc i))
                 = l_store_calls (loop_before co source False (cutoff_of co env) w (results outcome) i)
               \<and> l_dedup (loop_before co source False (cutoff_of co env) w (results outcome) (Suc i))
                 = l_dedup (loop_before co source False (cutoff_of co env) w (results outcome) i)
               \<and> items_skipped_duplicate
                   (l_stats (loop_before co source False (cutoff_of co env) w (results outcome) (Suc i)))
                 = items_skipped_duplicate
                     (l_stats (loop_before co source False (cutoff_of co env) w (results outcome) i))
                   + (if fr_published_at (results outcome ! i) < cutoff_of co env then 0 else 1))"
proof -
  let ?cutoff = "cutoff_of co env"
  let ?rs = "results outcome"
  let ?new = "stored_results False ?cutoff (ids (dedup w)) ?rs"
  note fin = collect_source_success[OF run fetched ok]
  note all = loop_before_all[of co source False ?cutoff w ?rs]
  have fresh: "\<forall>r \<in> set ?new. fr_id r \<notin> ids (dedup w)"
    using stored_results_fresh by blast
  have run_level: "\<exists>new. store_calls w' = store_calls w @ map (store_args co source) new
            \<and> (\<forall>r \<in> set new. fr_id r \<notin> ids (dedup w))
            \<and> ids (dedup w') = ids (dedup w) \<union> fr_id ` set new
            \<and> items_stored stats = int (length new)
            \<and> items_skipped_duplicate stats =
                int (length (filter (\<lambda>r. \<not> fr_published_at r < ?cutoff) ?rs)) - int (length new)"
    using fin all fresh by (intro exI[of _ ?new]) simp
  have per_item: "\<forall>i < length ?rs.
               fr_id (?rs ! i) \<in> ids (l_dedup (loop_before co source False ?cutoff w ?rs i)) \<longrightarrow>
               l_store_calls (loop_before co source False ?cutoff w ?rs (Suc i))
                 = l_store_calls (loop_before co source False ?cutoff w ?rs i)
               \<and> l_dedup (loop_before co source False ?cutoff w ?rs (Suc i))
                 = l_dedup (loop_before co source False ?cutoff w ?rs i)
               \<and> items_skipped_duplicate (l_stats (loop_before co source False ?cutoff w ?rs (Suc i)))
                 = items_skipped_duplicate (l_stats (loop_before co source False ?cutoff w ?rs i))
                   + (if fr_published_at (?rs ! i) < ?cutoff then 0 else 1)"
    using step_known_item by (simp add: loop_before_Suc)
  show ?thesis using run_level per_item fin by simp
qed

lemma demo_loop_before_1:
  "loop_before demo_coordinator demo_source False (cutoff_of demo_coordinator demo_env) demo_world
     (results demo_outcome) 1
   = (loop_start demo_world)\<lparr>l_stats := (l_stats (loop_start demo_world))\<lparr>items_fetched := 1\<rparr>\<rparr>"
  by (simp add: loop_before_def demo_cutoff_of demo_outcome_def demo_result_def process_result_def
      loop_start_def new_CollectionStats_def Let_def)

theorem C2_witness:
  "collect_source demo_coordinator demo_env demo_source False demo_world =
     Inr (demo_stats_after, demo_world_after)
   \<and> fetch (net demo_env) demo_source (fetched_now demo_env) = Inr demo_outcome
   \<and> success demo_outcome
   \<and> fr_id (results demo_outcome ! 1) = ''urn:seen''
   \<and> fr_id (results demo_outcome ! 1)
        \<in> ids (l_dedup (loop_before demo_coordinator demo_source False (cutoff_of demo_coordinator demo_env)
                           demo_world (results demo_outcome) 1))
   \<and> l_store_calls (loop_before demo_coordinator demo_source False (cutoff_of demo_coordinator demo_env)
                           demo_world (results demo_outcome) (Suc 1))
       = l_store_calls (loop_before demo_coordinator demo_source False (cutoff_of demo_coordinator demo_env)
                           demo_world (results demo_outcome) 1)
   \<and> l_dedup (loop_before demo_coordinator demo_source False (cutoff_of demo_coordinator demo_env)
                           demo_world (results demo_outcome) (Suc 1))
       = l_dedup (loop_before demo_coordinator demo_source False (cutoff_of demo_coordinator demo_env)
                           demo_world (results demo_outcome) 1)
   \<and> items_skipped_duplicate
         (l_stats (loop_before demo_coordinator demo_source False (cutoff_of demo_coordinator demo_env)
                           demo_world (results demo_outcome) (Suc 1)))
       = items_skipped_duplicate
           (l_stats (loop_before demo_coordinator demo_source False (cutoff_of demo_coordinator demo_env)
                           demo_world (results demo_outcome) 1))
         + 1
   \<and> map content_id (store_calls demo_world_after) = map content_id (store_calls demo_world) @ [''urn:new'']
   \<and> ids (dedup demo_world_after) = insert ''urn:new'' (ids (dedup demo_world))"
proof -
  let ?lb = "loop_before demo_coordinator demo_source False (cutoff_of demo_coordinator demo_env)
                           demo_world (results demo_outcome)"
  have len: "1 < length (results demo_outcome)" by (simp add: demo_outcome_def)
  have rid: "fr_id (results demo_outcome ! 1) = ''urn:seen''"
    by (simp add: demo_outcome_def demo_result_def)
  have known: "fr_id (results demo_outcome ! 1) \<in> ids (l_dedup (?lb 1))"
    unfolding rid demo_loop_before_1 by (simp add: loop_start_def demo_world_def)
  have notold: "\<not> fr_published_at (results demo_outcome ! 1) < cutoff_of demo_coordinator demo_env"
    by (simp add: demo_outcome_def demo_result_def demo_cutoff_of)
  have calls: "map content_id (store_calls demo_world_after) = map content_id (store_calls demo_world) @ [''urn:new'']"
    by (simp add: demo_world_after_def demo_call_def demo_result_def)
  have index: "ids (dedup demo_world_after) = insert ''urn:new'' (ids (dedup demo_world))"
    by (simp add: demo_world_after_def)
  from C2_known_items_skipped[OF demo_run demo_fetch demo_success]
  have "\<forall>i < length (results demo_outcome).
               fr_id (results demo_outcome ! i) \<in> ids (l_dedup (?lb i)) \<longrightarrow>
               l_store_calls (?lb (Suc i)) = l_store_calls (?lb i)
               \<and> l_dedup (?lb (Suc i)) = l_dedup (?lb i)
               \<and> items_skipped_duplicate (l_stats (?lb (Suc i)))
                 = items_skipped_duplicate (l_stats (?lb i))
                   + (if fr_published_at (results demo_outcome ! i) < cutoff_of demo_coordinator demo_env then 0 else 1)"
    by blast
  from this[rule_format, OF len known] notold
  have "l_store_calls (?lb (Suc 1)) = l_store_calls (?lb 1)
        \<and> l_dedup (?lb (Suc 1)) = l_dedup (?lb 1)
        \<and> items_skipped_duplicate (l_stats (?lb (Suc 1))) = items_skipped_duplicate (l_stats (?lb 1)) + 1"
    by simp
  then show ?thesis using demo_run demo_fetch demo_success rid known calls index by blast
qed

text \<open>
  The claim C2 as stated fails on the sample run: two fetched items have identifiers in
  the index (\<open>urn:seen\<close> and \<open>urn:seen-old\<close>), and \<open>items_skipped_duplicate\<close> is 1,
  since the second of them is dropped by the age filter before the duplicate check.
\<close>

theorem C2_counterexample:
  "collect_source demo_coordinator demo_env demo_source False demo_world =
     Inr (demo_stats_after, demo_world_after)
   \<and> fetch (net demo_env) demo_source (fetched_now demo_env) = Inr demo_outcome
   \<and> length (results demo_outcome) = 4
   \<and> fr_id (results demo_outcome ! 1) \<in> ids (dedup demo_world)
   \<and> fr_id (results demo_outcome ! 3) \<in> ids (dedup demo_world)
   \<and> fr_id (results demo_outcome ! 0) \<notin> ids (dedup demo_world)
   \<and> fr_id (results demo_outcome ! 2) \<notin> ids (dedup demo_world)
   \<and> items_skipped_duplicate demo_stats_after = 1"
  using demo_run demo_fetch
  by (simp add: demo_outcome_def demo_result_def demo_world_def demo_stats_after_def)

lemma step_changes_store:
  assumes "l_store_calls (process_result co source force cutoff l r) \<noteq> l_store_calls l"
  shows "l_store_calls (process_result co source force cutoff l r) = l_store_calls l @ [store_args co source r]
         \<and> l_dedup (process_result co source force cutoff l r) = add (l_dedup l) (fr_id r)"
  using assms by (auto simp add: process_result_def Let_def split: if_splits)

lemma collect_all_index_matches:
  "index_matches_store w \<Longrightarrow> collect_all co envs force w = Inr (stats, w') \<Longrightarrow> index_matches_store w'"
  unfolding collect_all_def by (rule collect_sources_index_matches)

lemma collect_by_id_index_matches:
  assumes "index_matches_store w" and "collect_by_id co env sid force w = Inr (ostats, w')"
  shows "index_matches_store w'"
proof (cases "get_source_by_id (registry co) sid")
  case None
  then show ?thesis using assms by (simp add: collect_by_id_def)
next
  case (Some source)
  show ?thesis
  proof (cases "collect_source co env source force w")
    case (Inl ex)
    then show ?thesis using assms Some by (simp add: collect_by_id_def)
  next
    case (Inr p)
    obtain st1 w1 where p: "p = (st1, w1)" by (cases p)
    then have "w1 = w'" using assms(2) Some Inr by (simp add: collect_by_id_def)
    then show ?thesis using collect_source_index_matches[OF assms(1)] Inr p by blast
  qed
qed

text \<open>
  C10.  An iteration of the item loop that stores its item (the item passes the age
  filter and either \<open>force\<close> is set or the index does not have its identifier; these
  are the only iterations that change the store) appends one \<open>store_content\<close> call
  and then adds the item's identifier to the index.  \<open>add\<close> is idempotent and leaves
  the set as it is for an identifier already present.  So the invariant that the index
  holds an identifier if and only if \<open>store_content\<close> has been called with it is
  preserved by \<open>collect_source\<close>, \<open>collect_all\<close> and \<open>collect_by_id\<close>, with and
  without \<open>force\<close>.
\<close>

theorem C10_index_follows_store:
  "(\<not> fr_published_at r < cutoff \<and> (force \<or> \<not> exists (l_dedup l) (fr_id r)) \<longrightarrow>
      l_store_calls (process_result co source force cutoff l r) = l_store_calls l @ [store_args co source r]
      \<and> l_dedup (process_result co source force cutoff l r) = add (l_dedup l) (fr_id r)
      \<and> exists (l_dedup (process_result co source force cutoff l r)) (fr_id r))
   \<and> (l_store_calls (process_result co source force cutoff l r) \<noteq> l_store_calls l \<longrightarrow>
      l_store_calls (process_result co source force cutoff l r) = l_store_calls l @ [store_args co source r]
      \<and> l_dedup (process_result co source force cutoff l r) = add (l_dedup l) (fr_id r))
   \<and> add (add d x) x = add d x
   \<and> (exists d x \<longrightarrow> ids (add d x) = ids d)
   \<and> (index_matches_store w \<and> collect_source co env source force w = Inr (stats, w')
        \<longrightarrow> index_matches_store w')
   \<and> (index_matches_store w \<and> collect_all co envs force w = Inr (stats, w')
        \<longrightarrow> index_matches_store w')
   \<and> (index_matches_store w \<and> collect_by_id co env sid force w = Inr (ostats, w')
        \<longrightarrow> index_matches_store w')"
proof -
  have store: "\<not> fr_published_at r < cutoff \<and> (force \<or> \<not> exists (l_dedup l) (fr_id r)) \<longrightarrow>
      l_store_calls (process_result co source force cutoff l r) = l_store_calls l @ [store_args co source r]
      \<and> l_dedup (process_result co source force cutoff l r) = add (l_dedup l) (fr_id r)
      \<and> exists (l_dedup (process_result co source force cutoff l r)) (fr_id r)"
    by (auto simp add: step_store)
  have changed: "l_store_calls (process_result co source force cutoff l r) \<noteq> l_store_calls l \<longrightarrow>
      l_store_calls (process_result co source force cutoff l r) = l_store_calls l @ [store_args co source r]
      \<and> l_dedup (process_result co source force cutoff l r) = add (l_dedup l) (fr_id r)"
    using step_changes_store by blast
  have present: "exists d x \<longrightarrow> ids (add d x) = ids d"
    by (simp add: insert_absorb)
  have one: "index_matches_store w \<and> collect_source co env source force w = Inr (stats, w')
        \<longrightarrow> index_matches_store w'"
    using collect_source_index_matches by blast
  have all: "index_matches_store w \<and> collect_all co envs force w = Inr (stats, w')
        \<longrightarrow> index_matches_store w'"
    using collect_all_index_matches by blast
  have by_id: "index_matches_store w \<and> collect_by_id co env sid force w = Inr (ostats, w')
        \<longrightarrow> index_matches_store w'"
    using collect_by_id_index_matches by blast
  have idem: "add (add d x) x = add d x"
    by (rule add_idempotent)
  from store changed idem present one all by_id show ?thesis
    by - (intro conjI, assumption+)
qed

theorem C10_witness:
  "\<not> fr_published_at (demo_result ''urn:seen'' ''Seen'' 63841248000000000) < 63840744000000000
   \<and> exists (l_dedup (loop_start demo_world)) (fr_id (demo_result ''urn:seen'' ''Seen'' 63841248000000000))
   \<and> l_store_calls (process_result demo_coordinator demo_source True 63840744000000000 (loop_start demo_world)
        (demo_result ''urn:seen'' ''Seen'' 63841248000000000))
      = l_store_calls (loop_start demo_world)
          @ [store_args demo_coordinator demo_source (demo_result ''urn:seen'' ''Seen'' 63841248000000000)]
   \<and> l_dedup (process_result demo_coordinator demo_source True 63840744000000000 (loop_start demo_world)
        (demo_result ''urn:seen'' ''Seen'' 63841248000000000))
      = add (l_dedup (loop_start demo_world)) (fr_id (demo_result ''urn:seen'' ''Seen'' 63841248000000000))
   \<and> ids (add (dedup demo_world) ''urn:seen'') = ids (dedup demo_world)
   \<and> index_matches_store demo_world
   \<and> collect_source demo_coordinator demo_env demo_source True demo_world =
        Inr (demo_stats_forced, demo_world_forced)
   \<and> index_matches_store demo_world_forced"
proof -
  let ?r = "demo_result ''urn:seen'' ''Seen'' 63841248000000000"
  have notold: "\<not> fr_published_at ?r < 63840744000000000"
    by (simp add: demo_result_def)
  have known: "exists (l_dedup (loop_start demo_world)) (fr_id ?r)"
    by (simp add: loop_start_def demo_world_def demo_result_def)
  have known': "exists (dedup demo_world) ''urn:seen''"
    by (simp add: demo_world_def)
  note inst = C10_index_follows_store
    [of "?r" 63840744000000000 True "loop_start demo_world" demo_coordinator demo_source
        "dedup demo_world" "''urn:seen''" demo_world demo_env demo_stats_forced demo_world_forced]
  from inst notold have step:
    "l_store_calls (process_result demo_coordinator demo_source True 63840744000000000 (loop_start demo_world) ?r)
      = l_store_calls (loop_start demo_world) @ [store_args demo_coordinator demo_source ?r]
     \<and> l_dedup (process_result demo_coordinator demo_source True 63840744000000000 (loop_start demo_world) ?r)
      = add (l_dedup (loop_start demo_world)) (fr_id ?r)"
    by blast
  from inst known' have idem: "ids (add (dedup demo_world) ''urn:seen'') = ids (dedup demo_world)"
    by blast
  from inst demo_invariant demo_run_forced have inv: "index_matches_store demo_world_forced"
    by blast
  show ?thesis
    using notold known step idem demo_invariant demo_run_forced inv by blast
qed

section \<open>Properties of the feed fetcher\<close>

lemma fetch_parse_raises:
  "feedparser_parse env (src_url source) = Inl e \<Longrightarrow>
   fetch env source t =
     Inr \<lparr>success = False, results = [], error_message = Some (exn_str e), error_type = Some (exn_type e)\<rparr>"
  by (simp add: fetch_def fetch_body_def)

lemma fetch_bozo_empty:
  "feedparser_parse env (src_url source) = Inr feed \<Longrightarrow> bozo feed = Some e \<Longrightarrow> entries feed = [] \<Longrightarrow>
   fetch env source t =
     Inr \<lparr>success = False, results = [], error_message = Some (exn_str e), error_type = Some (exn_type e)\<rparr>"
  by (simp add: fetch_def fetch_body_def)

lemma fetch_parsed:
  "feedparser_parse env (src_url source) = Inr feed \<Longrightarrow> bozo feed = None \<or> entries feed \<noteq> [] \<Longrightarrow>
   fetch env source t =
     Inr \<lparr>success = True,
          results = List.map_filter (\<lambda>entry. parse_entry env entry source t) (entries feed),
          error_message = None, error_type = None\<rparr>"
  by (auto simp add: fetch_def fetch_body_def split: option.splits)

lemma fetch_failure_shape:
  assumes "fetch env source t = Inr outcome" and "\<not> success outcome"
  shows "results outcome = [] \<and> error_message outcome \<noteq> None \<and> error_type outcome \<noteq> None"
proof (cases "feedparser_parse env (src_url source)")
  case (Inl e)
  then show ?thesis using assms fetch_parse_raises[OF Inl, of t] by auto
next
  case (Inr feed)
  show ?thesis
  proof (cases "bozo feed = None \<or> entries feed \<noteq> []")
    case True
    then show ?thesis using assms fetch_parsed[OF Inr True, of t] by auto
  next
    case False
    then obtain e where "bozo feed = Some e" "entries feed = []" by auto
    then show ?thesis using assms fetch_bozo_empty[OF Inr, of e t] by auto
  qed
qed

lemma parse_entry_None:
  "parse_entry env entry source t = None \<longleftrightarrow>
     (\<exists>e. parse_entry_body env entry source t = Inl e) \<or> parse_entry_body env entry source t = Inr None"
  by (cases "parse_entry_body env entry source t") (simp_all add: parse_entry_def)

text \<open>
  C7 (as amended).  \<open>fetch\<close> returns an outcome for every source and every behaviour
  of the network: it never raises an \<open>Exception\<close>.  An exception raised by the feed
  parser, and a feed flagged \<open>bozo\<close> with no entries, give \<open>success = False\<close> with no
  items, the message \<open>str(e)\<close> and the type name of the exception; both are set, and
  the message is whatever \<open>str(e)\<close> is, the empty string included.  Otherwise the
  outcome is a success with the items of the entries that parse, in feed order; an
  entry whose parsing raises or finds no identifier is dropped.
\<close>

theorem C7_fetch_never_raises:
  "(\<exists>outcome. fetch env source t = Inr outcome)
   \<and> (feedparser_parse env (src_url source) = Inl e \<longrightarrow>
        fetch env source t =
          Inr \<lparr>success = False, results = [], error_message = Some (exn_str e),
               error_type = Some (exn_type e)\<rparr>)
   \<and> (feedparser_parse env (src_url source) = Inr feed \<and> bozo feed = Some e \<and> entries feed = [] \<longrightarrow>
        fetch env source t =
          Inr \<lparr>success = False, results = [], error_message = Some (exn_str e),
               error_type = Some (exn_type e)\<rparr>)
   \<and> (feedparser_parse env (src_url source) = Inr feed \<and> (bozo feed = None \<or> entries feed \<noteq> []) \<longrightarrow>
        fetch env source t =
          Inr \<lparr>success = True,
               results = List.map_filter (\<lambda>entry. parse_entry env entry source t) (entries feed),
               error_message = None, error_type = None\<rparr>)
   \<and> (fetch env source t = Inr outcome \<and> \<not> success outcome \<longrightarrow>
        results outcome = [] \<and> error_message outcome \<noteq> None \<and> error_type outcome \<noteq> None)
   \<and> (parse_entry env entry source t = None \<longleftrightarrow>
        (\<exists>ex. parse_entry_body env entry source t = Inl ex) \<or> parse_entry_body env entry source t = Inr None)"
proof -
  have returns: "\<exists>outcome. fetch env source t = Inr outcome"
    by (cases "fetch_body env source t") (simp_all add: fetch_def)
  have raises: "feedparser_parse env (src_url source) = Inl e \<longrightarrow>
        fetch env source t =
          Inr \<lparr>success = False, results = [], error_message = Some (exn_str e),
               error_type = Some (exn_type e)\<rparr>"
    using fetch_parse_raises by blast
  have bozo_case: "feedparser_parse env (src_url source) = Inr feed \<and> bozo feed = Some e \<and> entries feed = [] \<longrightarrow>
        fetch env source t =
          Inr \<lparr>success = False, results = [], error_message = Some (exn_str e),
               error_type = Some (exn_type e)\<rparr>"
    using fetch_bozo_empty by blast
  have parsed: "feedparser_parse env (src_url source) = Inr feed \<and> (bozo feed = None \<or> entries feed \<noteq> []) \<longrightarrow>
        fetch env source t =
          Inr \<lparr>success = True,
               results = List.map_filter (\<lambda>entry. parse_entry env entry source t) (entries feed),
               error_message = None, error_type = None\<rparr>"
    using fetch_parsed by blast
  have failure: "fetch env source t = Inr outcome \<and> \<not> success outcome \<longrightarrow>
        results outcome = [] \<and> error_message outcome \<noteq> None \<and> error_type outcome \<noteq> None"
    using fetch_failure_shape by blast
  have dropped: "parse_entry env entry source t = None \<longleftrightarrow>
        (\<exists>ex. parse_entry_body env entry source t = Inl ex) \<or> parse_entry_body env entry source t = Inr None"
    by (rule parse_entry_None)
  from returns raises bozo_case parsed failure dropped show ?thesis
    by - (intro conjI, assumption+)
qed

lemma demo_parse_down:
  "feedparser_parse demo_net (src_url demo_source_down) =
     Inr \<lparr>bozo = Some (Exn ''URLError'' ''<urlopen error unknown host>''), entries = []\<rparr>"
  by (simp add: demo_net_def demo_source_down_def demo_source_def)

theorem C7_witness:
  "feedparser_parse demo_net (src_url demo_source_down) =
     Inr \<lparr>bozo = Some (Exn ''URLError'' ''<urlopen error unknown host>''), entries = []\<rparr>
   \<and> fetch demo_net demo_source_down 63841348798000000 =
       Inr \<lparr>success = False, results = [],
            error_message = Some ''<urlopen error unknown host>'', error_type = Some ''URLError''\<rparr>"
proof -
  from C7_fetch_never_raises
    [of demo_net demo_source_down 63841348798000000 "Exn ''URLError'' ''<urlopen error unknown host>''"
        "\<lparr>bozo = Some (Exn ''URLError'' ''<urlopen error unknown host>''), entries = []\<rparr>"]
    demo_parse_down
  show ?thesis by simp
qed

text \<open>
  The claim C7 as stated asks for a non-empty error message.  When the feed parser
  raises an exception whose \<open>str\<close> is empty, the outcome carries the empty message.
\<close>

theorem C7_counterexample:
  "fetch demo_net_raising demo_source 63841348798000000 =
     Inr \<lparr>success = False, results = [], error_message = Some [], error_type = Some ''AssertionError''\<rparr>"
  by (simp add: fetch_def fetch_body_def demo_net_raising_def)

subsection \<open>Loading the persisted files\<close>

lemma SourceStateManager_load_tolerant:
  "SourceStateManager_load Missing = Inr \<lparr>states = [], state_file = Missing\<rparr>
   \<and> SourceStateManager_load (Unparsable msg) = Inr \<lparr>states = [], state_file = Unparsable msg\<rparr>"
  by (simp add: SourceStateManager_load_def)

lemma Deduplicator_load_missing:
  "Deduplicator_load Missing = Inr \<lparr>ids = {}, index_file = Missing\<rparr>"
  by (simp add: Deduplicator_load_def)

text \<open>
  C8.  The state tracker starts with an empty map on a missing and on an unparsable
  file, and the duplicate index starts empty on a missing file (the two lemmas above).
  On an index file that is not JSON, \<open>Deduplicator._load\<close> does not start empty: the
  \<open>JSONDecodeError\<close> of \<open>json.load\<close> leaves the constructor.
\<close>

theorem C8_index_load_raises:
  "Deduplicator_load (Unparsable ''Expecting value: line 1 column 1 (char 0)'') =
     Inl (Exn ''JSONDecodeError'' ''Expecting value: line 1 column 1 (char 0)'')"
  by (simp add: Deduplicator_load_def)

section \<open>Reading back what the store wrote\<close>

lemma startswith3:
  "startswith (drop k s) ''---'' \<longleftrightarrow>
     k + 3 \<le> length s \<and> s ! k = CHR ''-'' \<and> s ! (k + 1) = CHR ''-'' \<and> s ! (k + 2) = CHR ''-''"
proof -
  have "take 3 (drop k s) = ''---'' \<longleftrightarrow>
     k + 3 \<le> length s \<and> s ! k = CHR ''-'' \<and> s ! (k + 1) = CHR ''-'' \<and> s ! (k + 2) = CHR ''-''"
  proof
    assume h: "take 3 (drop k s) = ''---''"
    then have "length (take 3 (drop k s)) = 3" by simp
    then have len: "k + 3 \<le> length s" by simp
    have "\<forall>j<3. take 3 (drop k s) ! j = CHR ''-''"
      using h by (simp add: nth_Cons' )
    then have all: "\<forall>j<3. s ! (k + j) = CHR ''-''"
      using len by simp
    have "s ! (k + 0) = CHR ''-'' \<and> s ! (k + 1) = CHR ''-'' \<and> s ! (k + 2) = CHR ''-''"
      using all[rule_format, of 0] all[rule_format, of 1] all[rule_format, of 2] by simp
    with len show "k + 3 \<le> length s \<and> s ! k = CHR ''-'' \<and> s ! (k + 1) = CHR ''-'' \<and> s ! (k + 2) = CHR ''-''"
      by simp
  next
    assume h: "k + 3 \<le> length s \<and> s ! k = CHR ''-'' \<and> s ! (k + 1) = CHR ''-'' \<and> s ! (k + 2) = CHR ''-''"
    then have "k + 3 \<le> length s" by blast
    then have len: "length (take 3 (drop k s)) = 3" by simp
    have "take 3 (drop k s) ! j = ''---'' ! j" if "j < 3" for j
    proof -
      from that have "j = 0 \<or> j = 1 \<or> j = 2" by arith
      then show ?thesis using h by auto
    qed
    then show "take 3 (drop k s) = ''---''"
      using len by (intro nth_equalityI) simp_all
  qed
  moreover have "length ''---'' = (3 :: nat)" by simp
  ultimately show ?thesis unfolding startswith_def by (simp only:)
qed

lemma find_at_nonneg:
  "startswith (drop k xs) sub \<Longrightarrow> k \<le> length xs \<Longrightarrow> 0 \<le> find_at sub xs i"
proof (induction xs arbitrary: k i)
  case Nil
  then show ?case by (simp add: startswith_def)
next
  case (Cons x xs)
  show ?case
  proof (cases "startswith (x # xs) sub")
    case True
    then show ?thesis by simp
  next
    case False
    then have "k \<noteq> 0" using Cons.prems(1) by (cases k) auto
    then obtain k' where k: "k = Suc k'" by (cases k) auto
    then show ?thesis using Cons.IH[of k' "Suc i"] Cons.prems False by simp
  qed
qed

lemma find_at_append_first:
  assumes "\<forall>k<length xs. \<not> startswith (drop k (xs @ zs)) sub" and "startswith zs sub"
  shows "find_at sub (xs @ zs) i = int (i + length xs)"
  using assms
proof (induction xs arbitrary: i)
  case Nil
  then show ?case by (cases zs) (auto simp: startswith_def)
next
  case (Cons x xs)
  from Cons.prems(1) have first: "\<not> startswith ((x # xs) @ zs) sub" by force
  have rest: "\<forall>k<length xs. \<not> startswith (drop k (xs @ zs)) sub"
  proof (intro allI impI)
    fix k assume "k < length xs"
    then have "Suc k < length (x # xs)" by simp
    with Cons.prems(1) have "\<not> startswith (drop (Suc k) ((x # xs) @ zs)) sub" by blast
    then show "\<not> startswith (drop k (xs @ zs)) sub" by simp
  qed
  show ?case using first Cons.IH[OF rest Cons.prems(2), of "Suc i"] by simp
qed

lemma marker_free_no_start:
  assumes mf: "marker_free D" and k: "k < length D"
  shows "\<not> startswith (drop k (D @ zs)) ''---''"
proof
  assume h: "startswith (drop k (D @ zs)) ''---''"
  from h[unfolded startswith3]
  have c: "(D @ zs) ! k = CHR ''-'' \<and> (D @ zs) ! (k + 1) = CHR ''-'' \<and> (D @ zs) ! (k + 2) = CHR ''-''"
    by blast
  from k have ne: "D \<noteq> []" by auto
  with mf have lastD: "last D = NL" by (simp add: marker_free_def)
  show False
  proof (cases "k + 3 \<le> length D")
    case True
    then have "startswith (drop k D) ''---''"
      using c by (simp add: startswith3 nth_append)
    then have "0 \<le> find_at ''---'' D 0"
      using k by (intro find_at_nonneg[of k]) simp_all
    then have "contains D ''---''" by (simp add: contains_def find_def)
    with mf show False by (simp add: marker_free_def)
  next
    case False
    then have "length D - 1 = k \<or> length D - 1 = k + 1 \<or> length D - 1 = k + 2"
      using k by arith
    then have "(D @ zs) ! (length D - 1) = CHR ''-''"
      using c by auto
    moreover have "(D @ zs) ! (length D - 1) = last D"
      using ne by (simp add: nth_append last_conv_nth)
    ultimately show False using lastD by (simp add: NL_def)
  qed
qed

lemma find_closing_marker:
  assumes "marker_free D"
  shows "find (''---'' @ [NL] @ D @ ''---'' @ rest) ''---'' 3 = int (length D + 4)"
proof -
  have none: "\<forall>k<length (NL # D). \<not> startswith (drop k ((NL # D) @ (''---'' @ rest))) ''---''"
  proof (intro allI impI)
    fix k assume k: "k < length (NL # D)"
    show "\<not> startswith (drop k ((NL # D) @ (''---'' @ rest))) ''---''"
    proof (cases k)
      case 0
      then show ?thesis by (simp add: startswith_def NL_def)
    next
      case (Suc k')
      then have "k' < length D" using k by simp
      from marker_free_no_start[OF assms this, of "''---'' @ rest"] Suc show ?thesis by simp
    qed
  qed
  have "startswith (''---'' @ rest) ''---''" by (simp add: startswith_def)
  from find_at_append_first[OF none this, of 3]
  show ?thesis by (simp add: find_def)
qed

lemma strip_leading_space: "is_space c \<Longrightarrow> strip (c # s) = strip s"
  by (simp add: strip_def strip_where_def)

lemma is_space_NL: "is_space NL"
  by (simp add: is_space_def NL_def)


lemma read_text_other: "c \<noteq> CR \<Longrightarrow> read_text (c # cs) = c # read_text cs"
  by (cases cs) simp_all

lemma read_text_prefix: "CR \<notin> set xs \<Longrightarrow> read_text (xs @ ys) = xs @ read_text ys"
  by (induction xs) (auto simp add: read_text_other)

lemma read_text_md_content:
  assumes "marker_free (yaml_dump lib (YMap (front_matter lib a)))"
  shows "read_text (md_content lib a) =
     ''---'' @ [NL] @ yaml_dump lib (YMap (front_matter lib a)) @ ''---'' @ [NL, NL] @ read_text (a_content a)"
proof -
  let ?D = "yaml_dump lib (YMap (front_matter lib a))"
  have "CR \<notin> set (''---'' @ [NL] @ ?D @ ''---'' @ [NL, NL])"
    using assms by (simp add: marker_free_def CR_def NL_def)
  from read_text_prefix[OF this, of "a_content a"] show ?thesis
    by (simp add: md_content_def)
qed

lemma header_id_of_header:
  assumes "marker_free D"
  shows "header_id (''---'' @ [NL] @ D @ ''---'' @ rest) =
     (case List.find (\<lambda>line. startswith line ''id:'') (split_lines (NL # D)) of
        None \<Rightarrow> None
      | Some line \<Rightarrow> Some (strip_char SQUOTE (strip_char DQUOTE (strip (drop 3 line)))))"
proof -
  let ?text = "''---'' @ [NL] @ D @ ''---'' @ rest"
  have sw: "startswith ?text ''---''" by (simp add: startswith_def)
  have e: "find ?text ''---'' 3 = int (length D + 4)"
    using find_closing_marker[OF assms] by simp
  have pos: "0 < find ?text ''---'' 3"
    using e by simp
  have e': "nat (find ?text ''---'' 3) = length D + 4"
    using e by simp
  have fm: "slice 3 (length D + 4) ?text = NL # D"
    by (simp add: slice_def numeral_eq_Suc)
  show ?thesis
    unfolding header_id_def Let_def by (simp only: sw pos e' fm if_True)
qed

lemma is_space_blank: "is_space (CHR '' '')"
  by (simp add: is_space_def)

lemma header_id_written:
  assumes "writes_plain_id lib a"
  shows "header_id (read_text (md_content lib a)) = Some (content_id a)"
proof -
  let ?D = "yaml_dump lib (YMap (front_matter lib a))"
  from assms have mf: "marker_free ?D"
    and line: "List.find (\<lambda>line. startswith line ''id:'') (split_lines (NL # ?D)) = Some (''id: '' @ content_id a)"
    and plain: "plain_id (content_id a)"
    by (simp_all add: writes_plain_id_def)
  have "strip (drop 3 (''id: '' @ content_id a)) = content_id a"
    using plain by (simp add: strip_leading_space is_space_blank plain_id_def)
  then have "strip_char SQUOTE (strip_char DQUOTE (strip (drop 3 (''id: '' @ content_id a)))) = content_id a"
    using plain by (simp add: plain_id_def)
  then show ?thesis
    unfolding read_text_md_content[OF mf] header_id_of_header[OF mf] line by simp
qed

section \<open>Properties of the duplicate index\<close>

lemma rebuild_loop_readable:
  "first_unreadable fs = None \<Longrightarrow>
   rebuild_loop fs (S, count) =
     Inr (S \<union> {i. \<exists>f \<in> set fs. entry_id (snd f) = Some i},
          count + int (length (filter (\<lambda>f. entry_id (snd f) \<noteq> None) fs)))"
proof (induction fs arbitrary: S count)
  case Nil
  then show ?case by simp
next
  case (Cons f fs)
  obtain p e where f: "f = (p, e)" by (cases f)
  from Cons.prems f obtain content where e: "e = Text content"
    by (cases e) simp_all
  from Cons.prems f e have rest: "first_unreadable fs = None" by simp
  show ?case
  proof (cases "header_id (read_text content)")
    case None
    then show ?thesis using Cons.IH[OF rest, of S count] f e by auto
  next
    case (Some i)
    then show ?thesis using Cons.IH[OF rest, of "insert i S" "count + 1"] f e by auto
  qed
qed

lemma rebuild_loop_raises:
  "first_unreadable fs = Some ex \<Longrightarrow> rebuild_loop fs (S, count) = Inl ex"
proof (induction fs arbitrary: S count)
  case Nil
  then show ?case by simp
next
  case (Cons f fs)
  obtain p e where f: "f = (p, e)" by (cases f)
  show ?case
  proof (cases e)
    case (Text content)
    then show ?thesis using Cons f by (cases "header_id (read_text content)") simp_all
  next
    case (Unreadable ex')
    then show ?thesis using Cons.prems f by simp
  qed
qed

lemma rebuild_from_files_result:
  "first_unreadable (rglob_md files) = None \<Longrightarrow>
   rebuild_from_files d files =
     Inr (int (length (filter (\<lambda>f. entry_id (snd f) \<noteq> None) (rglob_md files))),
          saved_index {i. \<exists>f \<in> set (rglob_md files). entry_id (snd f) = Some i})"
  by (simp add: rebuild_from_files_def rebuild_loop_readable save_index_def saved_index_def)

lemma rebuild_from_files_raises:
  "first_unreadable (rglob_md files) = Some ex \<Longrightarrow> rebuild_from_files d files = Inl ex"
  by (simp add: rebuild_from_files_def rebuild_loop_raises)

lemma rebuild_from_files_any_index:
  "rebuild_from_files d files = rebuild_from_files d' files"
  by (cases "rebuild_loop (rglob_md files) ({}, 0)")
     (auto simp add: rebuild_from_files_def save_index_def)

lemma written_files_readable:
  "map snd fs = map (\<lambda>a. Text (md_content lib a)) as \<Longrightarrow> first_unreadable fs = None"
proof (induction fs arbitrary: as)
  case Nil
  then show ?case by simp
next
  case (Cons f fs)
  obtain p e where f: "f = (p, e)" by (cases f)
  from Cons.prems obtain a as' where as: "as = a # as'" by (cases as) auto
  from Cons.prems f as have "e = Text (md_content lib a)" and "map snd fs = map (\<lambda>a. Text (md_content lib a)) as'"
    by simp_all
  then show ?case using Cons.IH[of as'] f by simp
qed

lemma written_files_scan:
  assumes texts: "map snd fs = map (\<lambda>a. Text (md_content lib a)) as"
    and plain: "\<forall>a \<in> set as. writes_plain_id lib a"
  shows "map (\<lambda>f. entry_id (snd f)) fs = map (\<lambda>a. Some (content_id a)) as"
proof -
  have "map (\<lambda>f. entry_id (snd f)) fs = map entry_id (map snd fs)"
    by (simp add: comp_def)
  also have "\<dots> = map (\<lambda>a. header_id (read_text (md_content lib a))) as"
    unfolding texts by (simp add: comp_def)
  also have "\<dots> = map (\<lambda>a. Some (content_id a)) as"
    using plain by (simp add: header_id_written)
  finally show ?thesis .
qed

lemma scan_count:
  assumes "map (\<lambda>f. entry_id (snd f)) fs = map (\<lambda>a. Some (content_id a)) as"
  shows "length (filter (\<lambda>f. entry_id (snd f) \<noteq> None) fs) = length as"
proof -
  have "length (filter (\<lambda>f. entry_id (snd f) \<noteq> None) fs)
      = length (filter (\<lambda>x. x \<noteq> None) (map (\<lambda>f. entry_id (snd f)) fs))"
    by (simp add: filter_map comp_def)
  also have "\<dots> = length as"
    unfolding assms by (simp add: filter_map comp_def)
  finally show ?thesis .
qed

lemma scan_ids:
  assumes "map (\<lambda>f. entry_id (snd f)) fs = map (\<lambda>a. Some (content_id a)) as"
  shows "{i. \<exists>f \<in> set fs. entry_id (snd f) = Some i} = content_id ` set as"
proof -
  have "{i. \<exists>f \<in> set fs. entry_id (snd f) = Some i}
      = {i. Some i \<in> set (map (\<lambda>f. entry_id (snd f)) fs)}"
    by force
  also have "\<dots> = content_id ` set as"
    unfolding assms by auto
  finally show ?thesis .
qed


lemma demo_plain: "writes_plain_id demo_lib demo_args"
  by code_simp

lemma demo_plain_other: "writes_plain_id demo_lib demo_args_other"
  by code_simp

lemma demo_store_two:
  "map snd (rglob_md (store_all demo_lib [((''tech-news'', ''notes.txt''), Text ''id: urn:note'')]
                        [demo_args, demo_args_other]))
     = map (\<lambda>a. Text (md_content demo_lib a)) [demo_args, demo_args_other]"
  by code_simp

lemma demo_ids_two: "map content_id [demo_args, demo_args_other] = [''urn:new'', ''urn:other'']"
  by (simp add: demo_args_def demo_args_other_def demo_call_def demo_result_def store_args_def)

lemma demo_first_unreadable:
  "first_unreadable (rglob_md demo_files_unreadable)
     = Some (Exn ''UnicodeDecodeError'' ''invalid start byte'')"
  by code_simp


lemma demo_md: "rglob_md demo_files = demo_files"
  by (simp add: rglob_md_def demo_files_def is_md_def endswith_def)

lemma header_id_new: "header_id (read_text (demo_file_text ''urn:new'' ''New'')) = Some ''urn:new''"
  by code_simp

lemma header_id_updated: "header_id (read_text (demo_file_text ''urn:new'' ''New (updated)'')) = Some ''urn:new''"
  by code_simp

lemma demo_file_is_written: "md_content demo_lib demo_args = demo_file_text ''urn:new'' ''New''"
  by code_simp


section \<open>Properties of the content store\<close>

lemma front_matter_distinct: "distinct (map fst (front_matter lib a))"
  by (cases "a_author a"; cases "a_metadata a") (auto simp add: front_matter_def)

lemma front_matter_lookup:
  "map_of (front_matter lib a) (YStr ''id'') = Some (YStr (content_id a))"
  "map_of (front_matter lib a) (YStr ''source_id'') = Some (YStr (a_source_id a))"
  "map_of (front_matter lib a) (YStr ''source_name'') = Some (YStr (a_source_name a))"
  "map_of (front_matter lib a) (YStr ''title'') = Some (YStr (a_title a))"
  "map_of (front_matter lib a) (YStr ''url'') = Some (YStr (a_url a))"
  "map_of (front_matter lib a) (YStr ''published_at'') = Some (YStr (isoformat lib (a_published_at a)))"
  "map_of (front_matter lib a) (YStr ''fetched_at'') = Some (YStr (isoformat lib (a_fetched_at a)))"
  "map_of (front_matter lib a) (YStr ''category'') = Some (YStr (a_category a))"
  "map_of (front_matter lib a) (YStr ''author'') =
     (if truthy (a_author a) then Some (YStr (the (a_author a))) else None)"
  by (cases "a_author a"; cases "a_metadata a"; simp add: front_matter_def truthy_def)+

lemma loaded_lookup:
  assumes "distinct (map fst kvs)" and "set kvs = set (front_matter lib a)"
  shows "map_of kvs = map_of (front_matter lib a)"
  using assms front_matter_distinct[of lib a] by (simp add: map_of_inject_set)

lemma parse_stored_file:
  assumes rt: "lib_round_trips lib a"
  shows "parse_content_file lib p (Text (md_content lib a)) =
     Some \<lparr>cf_id = YStr (content_id a), cf_source_id = YStr (a_source_id a),
           cf_source_name = YStr (a_source_name a), cf_title = YStr (a_title a),
           cf_url = YStr (a_url a), cf_published_at = Naive (a_published_at a),
           cf_fetched_at = Naive (a_fetched_at a), cf_category = YStr (a_category a),
           cf_author = (if truthy (a_author a) then YStr (the (a_author a)) else YNull),
           cf_content = strip (read_text (a_content a)), cf_file_path = p\<rparr>"
proof -
  let ?D = "yaml_dump lib (YMap (front_matter lib a))"
  let ?text = "''---'' @ [NL] @ ?D @ ''---'' @ [NL, NL] @ read_text (a_content a)"
  from rt have mf: "marker_free ?D" by (simp add: lib_round_trips_def)
  from rt obtain kvs where
    load: "yaml_safe_load lib (NL # ?D) = Inr (YMap kvs)"
    and dk: "distinct (map fst kvs)" and sk: "set kvs = set (front_matter lib a)"
    by (auto simp add: lib_round_trips_def split: sum.splits yaml.splits)
  from rt have pub: "fromisoformat lib (isoformat lib (a_published_at a)) = Some (Naive (a_published_at a))"
    and fet: "fromisoformat lib (isoformat lib (a_fetched_at a)) = Some (Naive (a_fetched_at a))"
    by (simp_all add: lib_round_trips_def)
  have m: "map_of kvs = map_of (front_matter lib a)"
    using dk sk by (rule loaded_lookup)
  have mdc: "read_text (md_content lib a) = ?text"
    using read_text_md_content[OF mf] .
  have sw: "startswith ?text ''---''" by (simp add: startswith_def)
  have e: "find ?text ''---'' 3 = int (length ?D + 4)"
    using find_closing_marker[OF mf] by simp
  have fm: "slice 3 (length ?D + 4) ?text = NL # ?D"
    by (simp add: slice_def numeral_eq_Suc)
  have body: "strip (drop (length ?D + 4 + 3) ?text) = strip (read_text (a_content a))"
    by (simp add: numeral_eq_Suc strip_leading_space is_space_NL)
  have sub: "subscript (YMap kvs) key = map_of (front_matter lib a) (YStr key)" for key
    by (simp add: subscript_def m)
  have getk: "get_key (YMap kvs) ''author'' =
      Some (if truthy (a_author a) then YStr (the (a_author a)) else YNull)"
    by (simp add: get_key_def m front_matter_lookup)
  show ?thesis
    unfolding parse_content_file.simps mdc parse_content_text_def
    using sw e fm body load
    by (simp add: Let_def sub getk front_matter_lookup fromisoformat_value_def pub fet nat_add_distrib)
qed

lemma endswith_append: "endswith (xs @ p) p"
  by (simp add: endswith_def)

lemma update_member: "(k, v) \<in> set (AList.update k v al)"
  by (induction al) auto

lemma update_subset: "set (AList.update k v al) \<subseteq> insert (k, v) (set al)"
  by (induction al) auto

lemma set_sort_published_desc: "set (sort_published_desc cs) = set cs"
  by (simp add: sort_published_desc_def)

lemma map_filter_member: "x \<in> set xs \<Longrightarrow> f x = Some y \<Longrightarrow> y \<in> set (List.map_filter f xs)"
  by (induction xs) (auto split: option.splits)

lemma map_filter_origin: "y \<in> set (List.map_filter f xs) \<Longrightarrow> \<exists>x \<in> set xs. f x = Some y"
  by (induction xs) (auto split: option.splits)

lemma stored_file_listed:
  "(fst (store_content lib files a), Text (md_content lib a)) \<in> set (rglob_md (snd (store_content lib files a)))"
proof -
  have "is_md (content_path lib a, Text (md_content lib a))"
    using endswith_append[of "strftime_ymd lib (a_published_at a) @ ''-'' @ slugify (a_title a)" "''.md''"]
    by (simp add: is_md_def content_path_def)
  then show ?thesis
    by (simp add: rglob_md_def store_content_def update_member)
qed

lemma stored_files_origin:
  "f \<in> set (rglob_md (snd (store_content lib files a))) \<Longrightarrow>
   f = (fst (store_content lib files a), Text (md_content lib a)) \<or> f \<in> set (rglob_md files)"
  using update_subset[of "content_path lib a" "Text (md_content lib a)" files]
  by (auto simp add: rglob_md_def store_content_def)

lemma get_content_since_naive:
  assumes "\<forall>c \<in> set (List.map_filter (\<lambda>(p, e). parse_content_file lib p e) (rglob_md files)).
             \<not> is_aware (cf_published_at c) \<and> \<not> is_aware (cf_fetched_at c)"
  shows "get_content_since lib files (Naive since) =
     Inr (sort_published_desc
            (filter (\<lambda>c. since \<le> instant (cf_fetched_at c))
               (List.map_filter (\<lambda>(p, e). parse_content_file lib p e) (rglob_md files))))"
proof -
  let ?parsed = "List.map_filter (\<lambda>(p, e). parse_content_file lib p e) (rglob_md files)"
  have cmp: "\<not> list_ex (\<lambda>c. is_aware (cf_fetched_at c) \<noteq> is_aware (Naive since)) ?parsed"
    using assms by (simp add: list_ex_iff)
  have srt: "\<not> mixed_kinds (map cf_published_at (filter (\<lambda>c. instant (Naive since) \<le> instant (cf_fetched_at c)) ?parsed))"
    using assms by (simp add: mixed_kinds_def list_ex_iff)
  show ?thesis
    unfolding get_content_since_def Let_def using cmp srt by simp
qed

text \<open>
  C1 (as amended).  Let \<open>store_content\<close> write a record whose file is under the
  content directory (the source id is the name of one directory) into a store whose
  files read back with naive time stamps, and let the library round trip on the
  record's values (the dumped front matter has no \<open>---\<close> and no carriage return in it
  and loads back as the same mapping, the two time stamps parse back from their ISO
  text).  Then \<open>get_content_since\<close> with a naive bound not after the record's fetch
  time returns, and among the records it returns is one for the written file whose
  identifier, source id, source name, title, URL, published and fetch time stamps and
  category are the written ones.  The author is the written one when it is a non-empty
  string, and \<open>None\<close> when it was \<open>None\<close> or empty.  The body is the written body as a
  text-mode read returns it (\<open>\r\n\<close> and \<open>\r\<close> turned into \<open>\n\<close>), without its
  leading and trailing white space.  The metadata is written to the file but
  \<open>ContentFile\<close> has no field for it: it is not read back.
\<close>

theorem C1_round_trip:
  assumes rt: "lib_round_trips lib a" and inside: "path_inside lib a"
    and naive: "reads_naive lib files" and recent: "since \<le> a_fetched_at a"
  shows "\<exists>cs. get_content_since lib (snd (store_content lib files a)) (Naive since) = Inr cs
         \<and> (\<exists>c \<in> set cs.
           cf_file_path c = fst (store_content lib files a)
           \<and> cf_id c = YStr (content_id a)
           \<and> cf_source_id c = YStr (a_source_id a)
           \<and> cf_source_name c = YStr (a_source_name a)
           \<and> cf_title c = YStr (a_title a)
           \<and> cf_url c = YStr (a_url a)
           \<and> cf_published_at c = Naive (a_published_at a)
           \<and> cf_fetched_at c = Naive (a_fetched_at a)
           \<and> cf_category c = YStr (a_category a)
           \<and> cf_author c = (if truthy (a_author a) then opt_str (a_author a) else YNull)
           \<and> cf_content c = strip (read_text (a_content a)))"
proof -
  let ?p = "fst (store_content lib files a)"
  let ?files = "snd (store_content lib files a)"
  let ?parse = "\<lambda>(p, e). parse_content_file lib p e"
  let ?c = "\<lparr>cf_id = YStr (content_id a), cf_source_id = YStr (a_source_id a),
           cf_source_name = YStr (a_source_name a), cf_title = YStr (a_title a),
           cf_url = YStr (a_url a), cf_published_at = Naive (a_published_at a),
           cf_fetched_at = Naive (a_fetched_at a), cf_category = YStr (a_category a),
           cf_author = (if truthy (a_author a) then YStr (the (a_author a)) else YNull),
           cf_content = strip (read_text (a_content a)), cf_file_path = ?p\<rparr>"
  have parsed: "parse_content_file lib ?p (Text (md_content lib a)) = Some ?c"
    using parse_stored_file[OF rt] .
  have listed: "?c \<in> set (List.map_filter ?parse (rglob_md ?files))"
    using stored_file_listed[of lib files a] parsed
    by (intro map_filter_member[of "(?p, Text (md_content lib a))"]) simp_all
  have all_naive: "\<forall>c \<in> set (List.map_filter ?parse (rglob_md ?files)).
      \<not> is_aware (cf_published_at c) \<and> \<not> is_aware (cf_fetched_at c)"
  proof
    fix c assume "c \<in> set (List.map_filter ?parse (rglob_md ?files))"
    then obtain f where f: "f \<in> set (rglob_md ?files)" and pf: "?parse f = Some c"
      using map_filter_origin by fastforce
    from stored_files_origin[OF f]
    show "\<not> is_aware (cf_published_at c) \<and> \<not> is_aware (cf_fetched_at c)"
    proof
      assume "f = (?p, Text (md_content lib a))"
      with pf parsed have "c = ?c" by simp
      then show ?thesis by simp
    next
      assume "f \<in> set (rglob_md files)"
      with pf have "c \<in> set (List.map_filter ?parse (rglob_md files))"
        by (intro map_filter_member[of f]) simp_all
      with naive show ?thesis by (simp add: reads_naive_def list_all_iff)
    qed
  qed
  have run: "get_content_since lib ?files (Naive since) =
     Inr (sort_published_desc
            (filter (\<lambda>c. since \<le> instant (cf_fetched_at c)) (List.map_filter ?parse (rglob_md ?files))))"
    using get_content_since_naive[OF all_naive] .
  have member: "?c \<in> set (sort_published_desc
            (filter (\<lambda>c. since \<le> instant (cf_fetched_at c)) (List.map_filter ?parse (rglob_md ?files))))"
    using listed recent by (simp add: set_sort_published_desc)
  have author: "cf_author ?c = (if truthy (a_author a) then opt_str (a_author a) else YNull)"
    by (auto simp add: opt_str_def truthy_def split: option.splits)
  show ?thesis
    using run member author by (intro exI conjI bexI[of _ ?c]) simp_all
qed

lemma demo_round_trips_crlf: "lib_round_trips demo_lib demo_args_crlf"
  by code_simp

lemma demo_inside_crlf: "path_inside demo_lib demo_args_crlf"
  by code_simp

lemma demo_round_trips_padded: "lib_round_trips demo_lib demo_args_padded"
  by code_simp

lemma demo_inside_padded: "path_inside demo_lib demo_args_padded"
  by code_simp

lemma demo_naive_files: "reads_naive demo_lib demo_files"
  by code_simp

text \<open>When a file of the store reads back with a fetch time that carries a UTC offset, the call raises: the time
  does not compare with a naive bound.\<close>

lemma get_content_since_raises_aware:
  "\<not> reads_naive demo_lib_aware demo_files_aware
   \<and> get_content_since demo_lib_aware demo_files_aware (Naive 0) = Inl compare_TypeError"
  by code_simp

lemma demo_body_crlf: "strip (read_text (a_content demo_args_crlf)) = ''a'' @ [NL] @ ''b''"
  by code_simp

lemma demo_read_back_padded:
  "get_content_since demo_lib (snd (store_content demo_lib [] demo_args_padded)) (Naive 0) =
     Inr [\<lparr>cf_id = YStr ''urn:new'', cf_source_id = YStr ''tech-news'',
       cf_source_name = YStr ''Tech News'', cf_title = YStr ''New'',
       cf_url = YStr ''http://example.com/a'',
       cf_published_at = Naive 63840744000000000, cf_fetched_at = Naive 63841348798000000,
       cf_category = YStr ''tech'', cf_author = YNull,
       cf_content = ''Summary'',
       cf_file_path = (''tech-news'', ''2024-01-13-new.md'')\<rparr>]"
  by code_simp

theorem C1_witness:
  "lib_round_trips demo_lib demo_args_crlf
   \<and> path_inside demo_lib demo_args_crlf
   \<and> reads_naive demo_lib demo_files
   \<and> (0 :: int) \<le> a_fetched_at demo_args_crlf
   \<and> a_author demo_args_crlf = None
   \<and> a_content demo_args_crlf = ''a'' @ [CR, NL] @ ''b'' @ [CHR 0xA0]
   \<and> strip (read_text (a_content demo_args_crlf)) = ''a'' @ [NL] @ ''b''
   \<and> (\<exists>cs. get_content_since demo_lib (snd (store_content demo_lib demo_files demo_args_crlf)) (Naive 0) = Inr cs
         \<and> (\<exists>c \<in> set cs.
           cf_file_path c = fst (store_content demo_lib demo_files demo_args_crlf)
           \<and> cf_id c = YStr (content_id demo_args_crlf)
           \<and> cf_source_id c = YStr (a_source_id demo_args_crlf)
           \<and> cf_source_name c = YStr (a_source_name demo_args_crlf)
           \<and> cf_title c = YStr (a_title demo_args_crlf)
           \<and> cf_url c = YStr (a_url demo_args_crlf)
           \<and> cf_published_at c = Naive (a_published_at demo_args_crlf)
           \<and> cf_fetched_at c = Naive (a_fetched_at demo_args_crlf)
           \<and> cf_category c = YStr (a_category demo_args_crlf)
           \<and> cf_author c = (if truthy (a_author demo_args_crlf) then opt_str (a_author demo_args_crlf) else YNull)
           \<and> cf_content c = strip (read_text (a_content demo_args_crlf))))"
proof -
  have recent: "(0 :: int) \<le> a_fetched_at demo_args_crlf"
    by (simp add: demo_args_crlf_def demo_args_def demo_call_def store_args_def demo_result_def)
  have author: "a_author demo_args_crlf = None"
    by (simp add: demo_args_crlf_def demo_args_def demo_call_def store_args_def demo_result_def)
  have body: "a_content demo_args_crlf = ''a'' @ [CR, NL] @ ''b'' @ [CHR 0xA0]"
    by (simp add: demo_args_crlf_def)
  from C1_round_trip[OF demo_round_trips_crlf demo_inside_crlf demo_naive_files recent]
    demo_round_trips_crlf demo_inside_crlf demo_naive_files recent author body demo_body_crlf
  show ?thesis by blast
qed

text \<open>
  The claim C1 as stated fails for a record whose body ends with a newline and whose
  author is the empty string: the record read back has the body without the newline,
  the author \<open>None\<close>, and no metadata.
\<close>

theorem C1_counterexample:
  "lib_round_trips demo_lib demo_args_padded
   \<and> path_inside demo_lib demo_args_padded
   \<and> a_content demo_args_padded = ''Summary'' @ [NL]
   \<and> a_author demo_args_padded = Some []
   \<and> a_metadata demo_args_padded = Some [(YStr ''tags'', YSeq [YStr ''news''])]
   \<and> get_content_since demo_lib (snd (store_content demo_lib [] demo_args_padded)) (Naive 0) =
       Inr [\<lparr>cf_id = YStr ''urn:new'', cf_source_id = YStr ''tech-news'',
         cf_source_name = YStr ''Tech News'', cf_title = YStr ''New'',
         cf_url = YStr ''http://example.com/a'',
         cf_published_at = Naive 63840744000000000, cf_fetched_at = Naive 63841348798000000,
         cf_category = YStr ''tech'', cf_author = YNull,
         cf_content = ''Summary'',
         cf_file_path = (''tech-news'', ''2024-01-13-new.md'')\<rparr>]"
proof -
  have fields: "a_content demo_args_padded = ''Summary'' @ [NL]
      \<and> a_author demo_args_padded = Some []
      \<and> a_metadata demo_args_padded = Some [(YStr ''tags'', YSeq [YStr ''news''])]"
    by (simp add: demo_args_padded_def demo_args_def demo_call_def store_args_def demo_result_def)
  show ?thesis
    using demo_round_trips_padded demo_inside_padded fields demo_read_back_padded by blast
qed


end
